theory Spec2Isabelle
  imports Complex_Main
begin

section \<open>The appearance-embedding renderer of gaussian-splatting-lightning\<close>

text \<open>
  A shallow embedding of \<^verbatim>\<open>internal/renderers/gsplat_appearance_embedding_renderer.py\<close>.

  Conventions of the model.
  \<^item> Tensor entries are real numbers: rounding, overflow, infinities and NaN of the
    floating-point tensors are not modelled. Gradients (and so \<^verbatim>\<open>detach()\<close>) and device
    placement are not modelled either; only the values of the forward pass are.
  \<^item> A 1-D tensor is a list, a 2-D tensor a list of rows. A column tensor of shape
    \<open>(N, 1)\<close> (opacities) is written as the list of its \<open>N\<close> entries.
  \<^item> Python's \<^verbatim>\<open>int\<close> is \<open>int\<close>; sizes that the source only ever uses as tensor dimensions
    are \<open>nat\<close>.
  \<^item> Every exception is a value \<open>Inl e\<close> of the result type \<open>error + 'a\<close>.
  \<^item> Collaborators that live outside the file (projection, spherical harmonics,
    rasterization, the base renderer, the framework's parameter loading) are parameters
    of the model, collected in records of functions.
\<close>

subsection \<open>Errors and the exception monad\<close>

datatype error =
    ZeroDivisionError
  | IndexError
  | KeyError
  | RuntimeError
  | AttributeError
  | ValueError
  | ConfigurationError

definition bindE :: "error + 'a \<Rightarrow> ('a \<Rightarrow> error + 'b) \<Rightarrow> error + 'b" where
  "bindE m f = (case m of Inl e \<Rightarrow> Inl e | Inr x \<Rightarrow> f x)"

text \<open>Evaluating a list of computations from left to right; the first exception wins.\<close>

fun collect :: "(error + 'a) list \<Rightarrow> error + 'a list" where
  "collect [] = Inr []"
| "collect (m # ms) = bindE m (\<lambda>x. bindE (collect ms) (\<lambda>xs. Inr (x # xs)))"

type_synonym vec = "real list"

subsection \<open>Configuration\<close>

text \<open>\<^verbatim>\<open>@dataclass class ModelConfig\<close>, with the defaults of the source.\<close>

record model_config =
  n_gaussian_feature_dims :: nat
  n_appearances :: int
  n_appearance_embedding_dims :: nat
  is_view_dependent :: bool
  n_view_direction_frequencies :: nat
  n_neurons :: nat
  n_layers :: nat
  skip_layers :: "int list"
  normalize :: bool

definition ModelConfig :: model_config where
  "ModelConfig = \<lparr> n_gaussian_feature_dims = 64, n_appearances = - 1,
     n_appearance_embedding_dims = 32, is_view_dependent = False,
     n_view_direction_frequencies = 4, n_neurons = 64, n_layers = 3,
     skip_layers = [], normalize = False \<rparr>"

text \<open>\<^verbatim>\<open>@dataclass class OptimizationConfig\<close>.\<close>

record optimization_config =
  gamma_eps :: real
  embedding_lr_init :: real
  embedding_lr_final_factor :: real
  lr_init :: real
  lr_final_factor :: real
  eps :: real
  max_steps :: int
  warm_up :: int

definition OptimizationConfig :: optimization_config where
  "OptimizationConfig = \<lparr> gamma_eps = 1 / 10 ^ 6, embedding_lr_init = 2 / 10 ^ 3,
     embedding_lr_final_factor = 1 / 10, lr_init = 1 / 10 ^ 3, lr_final_factor = 1 / 10,
     eps = 1 / 10 ^ 15, max_steps = 30000, warm_up = 4000 \<rparr>"

subsection \<open>The learning-rate schedule\<close>

text \<open>
  Python's \<^verbatim>\<open>float ** float\<close>. Anything to the power zero is \<open>1.0\<close> (also \<open>0.0 ** 0.0\<close>);
  zero to a negative power raises; a negative base with a fractional exponent gives a
  \<^verbatim>\<open>complex\<close> (the principal value), with an integral exponent a float.
\<close>

datatype pynum = PyFloat real | PyComplex complex

definition float_pow :: "real \<Rightarrow> real \<Rightarrow> error + pynum" where
  "float_pow b e =
     (if e = 0 then Inr (PyFloat 1)
      else if b = 0 then (if e < 0 then Inl ZeroDivisionError else Inr (PyFloat 0))
      else if b < 0 then
        (if e = of_int \<lfloor>e\<rfloor> then Inr (PyFloat (b powi \<lfloor>e\<rfloor>))
         else Inr (PyComplex (Complex (\<bar>b\<bar> powr e * cos (pi * e)) (\<bar>b\<bar> powr e * sin (pi * e)))))
      else Inr (PyFloat (b powr e)))"

text \<open>
  The \<^verbatim>\<open>lr_lambda\<close> handed to \<^verbatim>\<open>LambdaLR\<close>:
  \<^verbatim>\<open>lambda iter: lr_final_factor ** min(max(iter - warm_up, 0) / max_steps, 1)\<close>.
  \<^verbatim>\<open>iter\<close>, \<^verbatim>\<open>warm_up\<close> and \<^verbatim>\<open>max_steps\<close> are ints, so \<^verbatim>\<open>/\<close> is true division of two ints and
  raises when \<^verbatim>\<open>max_steps\<close> is zero.
\<close>

definition lr_lambda :: "real \<Rightarrow> int \<Rightarrow> int \<Rightarrow> int \<Rightarrow> error + pynum" where
  "lr_lambda lr_final_factor' max_steps' warm_up' iter =
     (if max_steps' = 0 then Inl ZeroDivisionError
      else float_pow lr_final_factor'
             (min (real_of_int (max (iter - warm_up') 0) / real_of_int max_steps') 1))"

text \<open>
  An Adam optimizer with one named parameter group, and its \<^verbatim>\<open>LambdaLR\<close> scheduler.
  \<^verbatim>\<open>torch.optim.Adam\<close> rejects a negative learning rate and a negative epsilon with a
  \<^verbatim>\<open>ValueError\<close>. \<^verbatim>\<open>LambdaLR\<close> takes its initial step when it is constructed: it calls
  \<^verbatim>\<open>lr_lambda(0)\<close>, so an exception of the lambda at step \<open>0\<close> is an exception of the
  construction.
\<close>

record 'p optimizer =
  opt_params :: 'p
  opt_name :: string
  opt_lr :: real
  opt_eps :: real

record scheduler =
  sched_lr_lambda :: "int \<Rightarrow> error + pynum"

definition create_optimizer_and_scheduler ::
  "'p \<Rightarrow> string \<Rightarrow> real \<Rightarrow> real \<Rightarrow> int \<Rightarrow> real \<Rightarrow> int
     \<Rightarrow> error + ('p optimizer \<times> scheduler)" where
  "create_optimizer_and_scheduler params name lr_init' lr_final_factor' max_steps' eps' warm_up' =
     (if lr_init' < 0 \<or> eps' < 0 then Inl ValueError
      else
        let optimizer = \<lparr> opt_params = params, opt_name = name, opt_lr = lr_init',
                            opt_eps = eps' \<rparr>;
            lr_lambda' = lr_lambda lr_final_factor' max_steps' warm_up'
        in bindE (lr_lambda' 0) (\<lambda>_. Inr (optimizer, \<lparr> sched_lr_lambda = lr_lambda' \<rparr>)))"

subsection \<open>Collaborators of the shading model\<close>

text \<open>
  \<^verbatim>\<open>PositionalEncoding\<close> (\<^verbatim>\<open>internal/encodings/positional_encoding.py\<close>) is not among the
  sources. It is a parameter: a stateless encoder of one direction, and the number of
  channels it announces through \<^verbatim>\<open>get_output_n_channels()\<close>.
\<close>

record positional_encoding =
  pe_forward :: "vec \<Rightarrow> vec"
  get_output_n_channels :: nat

datatype activation = ReLU | Sigmoid

definition sigmoid :: "real \<Rightarrow> real" where
  "sigmoid x = 1 / (1 + exp (- x))"

definition relu :: "real \<Rightarrow> real" where
  "relu x = max 0 x"

fun apply_activation :: "activation \<Rightarrow> real \<Rightarrow> real" where
  "apply_activation ReLU x = relu x"
| "apply_activation Sigmoid x = sigmoid x"

definition dot :: "vec \<Rightarrow> vec \<Rightarrow> real" where
  "dot u v = sum_list (map2 (*) u v)"

text \<open>
  Modelled from the spec: the network built by
  \<^verbatim>\<open>NetworkFactory(tcnn=False).get_network_with_skip_layers\<close>
  (\<^verbatim>\<open>internal/utils/network_factory.py\<close> is not among the sources). The spec describes it
  as a feed-forward network with configurable depth and width and optional skip
  connections, hidden activation rectified linear, the requested output activation,
  input dimension \<open>n_input_dims\<close> and output dimension \<open>n_output_dims\<close>, whose construction
  fails if a configured skip-layer index is out of range for the configured depth.

  The hidden stack (its linear layers, activations and skip concatenations, with their
  learned weights) is a function \<open>net_hidden\<close> from an input row to the \<open>n_neurons\<close> values
  of the last hidden layer; the last linear layer has one weight row of that width and one
  bias per output channel, and the output activation follows it.
\<close>

record network =
  net_n_input_dims :: nat
  net_hidden :: "vec \<Rightarrow> vec"
  net_out_weight :: "vec list"
  net_out_bias :: "real list"
  net_output_activation :: activation

text \<open>The values the learned parameters start from (and later hold).\<close>

record net_weights =
  hidden_stack :: "activation \<Rightarrow> vec \<Rightarrow> vec"
  out_weight :: "nat \<Rightarrow> nat \<Rightarrow> real"
  out_bias :: "nat \<Rightarrow> real"

definition get_network_with_skip_layers ::
  "net_weights \<Rightarrow> nat \<Rightarrow> nat \<Rightarrow> nat \<Rightarrow> nat \<Rightarrow> activation \<Rightarrow> activation \<Rightarrow> int list
     \<Rightarrow> error + network" where
  "get_network_with_skip_layers w n_input_dims n_output_dims n_layers' n_neurons' act out_act skips =
     (if \<exists>s \<in> set skips. s < 0 \<or> int n_layers' \<le> s then Inl ConfigurationError
      else Inr \<lparr> net_n_input_dims = n_input_dims,
                 net_hidden = hidden_stack w act,
                 net_out_weight = map (\<lambda>i. map (out_weight w i) [0..<n_neurons']) [0..<n_output_dims],
                 net_out_bias = map (out_bias w) [0..<n_output_dims],
                 net_output_activation = out_act \<rparr>)"

text \<open>One input row through the network; a row of the wrong width is a shape error.\<close>

definition network_row :: "network \<Rightarrow> vec \<Rightarrow> error + vec" where
  "network_row net x =
     (if length x \<noteq> net_n_input_dims net then Inl RuntimeError
      else Inr (map2 (\<lambda>w b. apply_activation (net_output_activation net) (dot w (net_hidden net x) + b))
                  (net_out_weight net) (net_out_bias net)))"

definition network_forward :: "network \<Rightarrow> vec list \<Rightarrow> error + vec list" where
  "network_forward net rows = collect (map (network_row net) rows)"

subsection \<open>The appearance shading model (\<^verbatim>\<open>class Model\<close>)\<close>

record model =
  config :: model_config
  embedding :: "vec list"
  view_direction_encoding :: "positional_encoding option"
  network :: network

text \<open>What construction draws from outside: initial weights and the encoder's constructor.\<close>

record initializers =
  embedding_init :: "nat \<Rightarrow> nat \<Rightarrow> real"
  network_init :: net_weights
  PositionalEncoding :: "nat \<Rightarrow> nat \<Rightarrow> positional_encoding"

text \<open>
  \<^verbatim>\<open>Model.__init__\<close> and \<^verbatim>\<open>Model._setup\<close>. \<^verbatim>\<open>nn.Embedding\<close> allocates
  \<open>num_embeddings \<times> embedding_dim\<close> weights and cannot do so for a negative count.
\<close>

definition Model :: "initializers \<Rightarrow> model_config \<Rightarrow> error + model" where
  "Model ini cfg =
     (if n_appearances cfg < 0 then Inl RuntimeError
      else
        let emb = map (\<lambda>i. map (embedding_init ini i) [0..<n_appearance_embedding_dims cfg])
                    [0..<nat (n_appearances cfg)];
            n_input_dims = n_gaussian_feature_dims cfg + n_appearance_embedding_dims cfg;
            enc = (if is_view_dependent cfg
                   then Some (PositionalEncoding ini 3 (n_view_direction_frequencies cfg))
                   else None);
            n_input_dims = (case enc of None \<Rightarrow> n_input_dims
                            | Some pe \<Rightarrow> n_input_dims + get_output_n_channels pe)
        in bindE (get_network_with_skip_layers (network_init ini) n_input_dims 3
                    (n_layers cfg) (n_neurons cfg) ReLU Sigmoid (skip_layers cfg))
             (\<lambda>net. Inr \<lparr> config = cfg, embedding = emb,
                           view_direction_encoding = enc, network = net \<rparr>))"

text \<open>\<^verbatim>\<open>self.embedding(ids)\<close>: one row per id, an id outside the table raises.\<close>

definition embedding_lookup :: "vec list \<Rightarrow> int list \<Rightarrow> error + vec list" where
  "embedding_lookup weight ids =
     collect (map (\<lambda>i. if 0 \<le> i \<and> i < int (length weight) then Inr (weight ! nat i)
                        else Inl IndexError) ids)"

text \<open>\<^verbatim>\<open>torch.nn.functional.normalize(x, dim=-1)\<close>: each row divided by \<open>max(\<parallel>row\<parallel>\<^sub>2, 1e-12)\<close>.\<close>

definition l2_normalize :: "vec list \<Rightarrow> vec list" where
  "l2_normalize rows =
     map (\<lambda>r. map (\<lambda>x. x / max (sqrt (sum_list (map (\<lambda>y. y * y) r))) (1 / 10 ^ 12)) r) rows"

text \<open>\<^verbatim>\<open>torch.concat(ts, dim=-1)\<close>: the tensors must agree in their number of rows.\<close>

fun concat_last :: "vec list list \<Rightarrow> error + vec list" where
  "concat_last [] = Inl RuntimeError"
| "concat_last [t] = Inr t"
| "concat_last (t # ts) =
     bindE (concat_last ts)
       (\<lambda>rest. if length t = length rest then Inr (map2 (@) t rest) else Inl RuntimeError)"

text \<open>
  \<^verbatim>\<open>Model.forward\<close>. \<open>appearance\<close> is the id tensor flattened by \<^verbatim>\<open>reshape((-1,))\<close>;
  \<^verbatim>\<open>repeat(N, 1)\<close> tiles the looked-up rows \<open>N\<close> times along the first dimension.
\<close>

definition Model_forward :: "model \<Rightarrow> vec list \<Rightarrow> int list \<Rightarrow> vec list \<Rightarrow> error + vec list" where
  "Model_forward m gaussian_features appearance view_dirs =
     bindE (embedding_lookup (embedding m) appearance)
       (\<lambda>looked_up.
          let appearance_embeddings = concat (replicate (length gaussian_features) looked_up);
              gaussian_features' = (if normalize (config m) then l2_normalize gaussian_features
                                    else gaussian_features);
              appearance_embeddings' = (if normalize (config m) then l2_normalize appearance_embeddings
                                        else appearance_embeddings);
              input_tensor_list = [gaussian_features', appearance_embeddings']
          in bindE (if is_view_dependent (config m)
                    then (case view_direction_encoding m of
                            None \<Rightarrow> Inl AttributeError
                          | Some pe \<Rightarrow> Inr (input_tensor_list @ [map (pe_forward pe) view_dirs]))
                    else Inr input_tensor_list)
               (\<lambda>input_tensor_list'.
                  bindE (concat_last input_tensor_list') (network_forward (network m))))"

text \<open>
  The shading prediction as the renderer uses it:
  \<^verbatim>\<open>rgb_offset = self.model(features, appearance_id, view_directions) * 2 - 1.\<close>
\<close>

definition predict :: "model \<Rightarrow> vec list \<Rightarrow> int list \<Rightarrow> vec list \<Rightarrow> error + vec list" where
  "predict m point_features appearance_id view_directions =
     bindE (Model_forward m point_features appearance_id view_directions)
       (\<lambda>out. Inr (map (map (\<lambda>x. x * 2 - 1)) out))"

subsection \<open>Tensor operations used by the renderer\<close>

text \<open>
  Elementwise operations broadcast: two dimensions are compatible when they are equal or
  one of them is \<open>1\<close>; otherwise PyTorch raises. \<open>bcast\<close> is one dimension of that rule;
  nesting it gives the rule for 2-D tensors.
\<close>

definition bcast :: "('a \<Rightarrow> 'b \<Rightarrow> error + 'c) \<Rightarrow> 'a list \<Rightarrow> 'b list \<Rightarrow> error + 'c list" where
  "bcast f xs ys =
     (if length xs = length ys then collect (map2 f xs ys)
      else if length xs = 1 then collect (map (f (hd xs)) ys)
      else if length ys = 1 then collect (map (\<lambda>x. f x (hd ys)) xs)
      else Inl RuntimeError)"

definition tensor_add :: "vec list \<Rightarrow> vec list \<Rightarrow> error + vec list" where
  "tensor_add a b = bcast (bcast (\<lambda>x y. Inr (x + y))) a b"

definition tensor_sub_row :: "vec list \<Rightarrow> vec \<Rightarrow> error + vec list" where
  "tensor_sub_row a c = collect (map (\<lambda>row. bcast (\<lambda>x y. Inr (x - y)) row c) a)"

text \<open>\<^verbatim>\<open>x[mask]\<close> with a boolean mask over the first dimension.\<close>

definition masked_select :: "bool list \<Rightarrow> 'a list \<Rightarrow> error + 'a list" where
  "masked_select msk xs =
     (if length msk = length xs then Inr (map snd (filter fst (zip msk xs)))
      else Inl IndexError)"

text \<open>
  \<^verbatim>\<open>buf[mask] = values\<close>: the values are expanded to the shape of the selected part (a
  dimension of size \<open>1\<close> is repeated, any other mismatch raises) and written, in order, to
  the rows where the mask is true; the other rows keep what they held.
\<close>

definition expand_to :: "nat \<Rightarrow> 'a list \<Rightarrow> error + 'a list" where
  "expand_to n xs =
     (if length xs = n then Inr xs
      else if length xs = 1 then Inr (replicate n (hd xs))
      else Inl RuntimeError)"

fun scatter :: "bool list \<Rightarrow> 'a list \<Rightarrow> 'a list \<Rightarrow> 'a list" where
  "scatter (True # msk) (b # buf) (v # vs) = v # scatter msk buf vs"
| "scatter (False # msk) (b # buf) vs = b # scatter msk buf vs"
| "scatter msk buf vs = buf"

definition expand_rows :: "nat \<Rightarrow> nat \<Rightarrow> vec list \<Rightarrow> error + vec list" where
  "expand_rows n_rows n_cols vals =
     bindE (expand_to n_rows vals) (\<lambda>rows. collect (map (expand_to n_cols) rows))"

definition masked_assign :: "bool list \<Rightarrow> vec list \<Rightarrow> nat \<Rightarrow> vec list \<Rightarrow> error + vec list" where
  "masked_assign msk buf n_cols vals =
     (if length msk \<noteq> length buf then Inl IndexError
      else bindE (expand_rows (length (filter id msk)) n_cols vals)
             (\<lambda>rows. Inr (scatter msk buf rows)))"

definition clamp :: "real \<Rightarrow> real \<Rightarrow> real \<Rightarrow> real" where
  "clamp x lo hi = min (max x lo) hi"

definition vector_norm :: "vec \<Rightarrow> real" where
  "vector_norm v = sqrt (sum_list (map (\<lambda>x. x * x) v))"

subsection \<open>The renderer module and its collaborators\<close>

record camera =
  camera_center :: vec
  width :: int
  height :: int
  appearance_id :: "int list"

text \<open>The Gaussian model \<^verbatim>\<open>pc\<close>: what its accessors return.\<close>

record gaussian_model =
  get_xyz :: "vec list"
  get_scaling :: "vec list"
  get_rotation :: "vec list"
  get_opacities :: "real list"
  get_features :: "vec list list"
  active_sh_degree :: nat
  get_appearance_features :: "vec list"
  get_3d_filtered_scales_and_opacities :: "real list \<times> vec list"

text \<open>The tuple \<^verbatim>\<open>xys, depths, radii, conics, comp, num_tiles_hit, cov3d\<close> of the projection.\<close>

record projection_results =
  xys :: "vec list"
  depths :: "real list"
  radii :: "int list"
  conics :: "vec list"
  comp :: "real list"
  num_tiles_hit :: "int list"
  cov3d :: "vec list"

text \<open>The keyword arguments of one \<^verbatim>\<open>rasterize_simplified\<close> call.\<close>

record rasterize_args =
  project_results :: projection_results
  viewpoint_camera :: camera
  colors :: "vec list"
  bg_color :: vec
  opacities :: "real list"
  rasterize_anti_aliased :: bool

text \<open>
  The external primitives: \<^verbatim>\<open>GSPlatRenderer.project\<close> (means, scales, rotations, camera,
  scaling modifier, 2-D filter kernel size), \<^verbatim>\<open>gsplat.sh.spherical_harmonics\<close>,
  \<^verbatim>\<open>GSPlatRenderer.rasterize_simplified\<close> and the call of the base renderer itself
  (camera, model, background, scaling modifier, and the \<^verbatim>\<open>render_types\<close> keyword if given).
\<close>

record ('img, 'base) externals =
  project :: "vec list \<Rightarrow> vec list \<Rightarrow> vec list \<Rightarrow> camera \<Rightarrow> real \<Rightarrow> real \<Rightarrow> projection_results"
  spherical_harmonics :: "nat \<Rightarrow> vec list \<Rightarrow> vec list list \<Rightarrow> vec list"
  rasterize_simplified :: "rasterize_args \<Rightarrow> 'img"
  base_renderer :: "camera \<Rightarrow> gaussian_model \<Rightarrow> vec \<Rightarrow> real \<Rightarrow> string list option \<Rightarrow> 'base"

text \<open>The calls a render makes to its collaborators and to the shading model, in order.\<close>

datatype call =
    Call_project
  | Call_spherical_harmonics
  | Call_model
  | Call_rasterize rasterize_args
  | Call_base_renderer

datatype GSPlatRenderer = GSPlatRenderer

text \<open>
  \<^verbatim>\<open>GSplatAppearanceEmbeddingRendererModule\<close>. The attributes \<^verbatim>\<open>model\<close> and \<^verbatim>\<open>renderer\<close> exist
  only once \<^verbatim>\<open>_setup_model\<close> has run. \<open>mip\<close> tells the subclass
  \<^verbatim>\<open>GSplatAppearanceEmbeddingMipRendererModule\<close>, which overrides \<^verbatim>\<open>preprocess\<close> only.
\<close>

record renderer_module =
  anti_aliased :: bool
  model_config :: model_config
  optimization_config :: optimization_config
  filter_2d_kernel_size :: real
  model :: "model option"
  renderer :: "GSPlatRenderer option"
  mip :: bool

definition get_model :: "renderer_module \<Rightarrow> error + model" where
  "get_model self = (case model self of None \<Rightarrow> Inl AttributeError | Some m \<Rightarrow> Inr m)"

definition get_renderer :: "renderer_module \<Rightarrow> error + GSPlatRenderer" where
  "get_renderer self = (case renderer self of None \<Rightarrow> Inl AttributeError | Some r \<Rightarrow> Inr r)"

text \<open>The dictionary \<^verbatim>\<open>forward\<close> returns (key \<^verbatim>\<open>radii\<close> is the field \<open>out_radii\<close>).\<close>

record 'img render_outputs =
  render :: "'img option"
  inverse_depth :: "'img option"
  hard_inverse_depth :: "'img option"
  viewspace_points :: "vec list"
  viewspace_points_grad_scale :: "vec list"
  visibility_filter :: "bool list"
  out_radii :: "int list"

subsection \<open>Rendering\<close>

text \<open>
  \<^verbatim>\<open>preprocess\<close>: the projection and the opacities. The subclass takes opacities and scales
  from \<^verbatim>\<open>pc.get_3d_filtered_scales_and_opacities()\<close> instead.
\<close>

definition preprocess ::
  "('img, 'base) externals \<Rightarrow> renderer_module \<Rightarrow> gaussian_model \<Rightarrow> camera \<Rightarrow> real
     \<Rightarrow> projection_results \<times> real list" where
  "preprocess ext self pc cam scaling_modifier =
     (if mip self then
        (let (opacities', scales) = get_3d_filtered_scales_and_opacities pc
         in (project ext (get_xyz pc) scales (get_rotation pc) cam scaling_modifier
               (filter_2d_kernel_size self), opacities'))
      else
        (project ext (get_xyz pc) (get_scaling pc) (get_rotation pc) cam scaling_modifier
           (filter_2d_kernel_size self), get_opacities pc))"

text \<open>
  The colours of the \<^verbatim>\<open>rgb\<close> channel, lines 196 to 204 of the source, in its order:
  the unit view directions of the visible points (198 to 200), their spherical-harmonics
  colour plus \<open>0.5\<close> (201), the predicted offset (202), and the clamped sum written into a
  zero buffer of \<open>radii.shape[0]\<close> rows and 3 columns (203, 204).
\<close>

definition view_directions_of :: "camera \<Rightarrow> gaussian_model \<Rightarrow> bool list \<Rightarrow> error + vec list" where
  "view_directions_of cam pc is_gaussian_visible =
     bindE (masked_select is_gaussian_visible (get_xyz pc)) (\<lambda>visible_xyz.
     bindE (tensor_sub_row visible_xyz (camera_center cam)) (\<lambda>view_directions.
     Inr (map (\<lambda>v. map (\<lambda>x. x / vector_norm v) v) view_directions)))"

definition base_rgb_of ::
  "('img, 'base) externals \<Rightarrow> gaussian_model \<Rightarrow> bool list \<Rightarrow> vec list \<Rightarrow> error + vec list" where
  "base_rgb_of ext pc is_gaussian_visible view_directions =
     bindE (masked_select is_gaussian_visible (get_features pc)) (\<lambda>visible_features.
     Inr (map (map (\<lambda>x. x + 1 / 2))
            (spherical_harmonics ext (active_sh_degree pc) view_directions visible_features)))"

definition rgb_offset_of ::
  "renderer_module \<Rightarrow> camera \<Rightarrow> gaussian_model \<Rightarrow> bool list \<Rightarrow> vec list \<Rightarrow> error + vec list" where
  "rgb_offset_of self cam pc is_gaussian_visible view_directions =
     bindE (get_model self) (\<lambda>m.
     bindE (masked_select is_gaussian_visible (get_appearance_features pc)) (\<lambda>visible_appearance_features.
     predict m visible_appearance_features (appearance_id cam) view_directions))"

definition shade_rgb ::
  "('img, 'base) externals \<Rightarrow> renderer_module \<Rightarrow> camera \<Rightarrow> gaussian_model
     \<Rightarrow> projection_results \<Rightarrow> bool list \<Rightarrow> error + vec list" where
  "shade_rgb ext self cam pc pr is_gaussian_visible =
     bindE (view_directions_of cam pc is_gaussian_visible) (\<lambda>view_directions.
     bindE (base_rgb_of ext pc is_gaussian_visible view_directions) (\<lambda>base_rgb.
     bindE (rgb_offset_of self cam pc is_gaussian_visible view_directions) (\<lambda>rgb_offset.
     bindE (tensor_add base_rgb rgb_offset) (\<lambda>composed.
     masked_assign is_gaussian_visible (replicate (length (radii pr)) (replicate 3 0)) 3
       (map (map (\<lambda>x. clamp x 0 1)) composed)))))"

text \<open>\<^verbatim>\<open>1. / (depths.clamp_min(0.) + 1e-8).unsqueeze(-1)\<close>: one column per point.\<close>

definition inverse_depth_colors :: "real list \<Rightarrow> vec list" where
  "inverse_depth_colors ds = map (\<lambda>d. [1 / (max d 0 + 1 / 10 ^ 8)]) ds"

text \<open>The keyword arguments of the three \<^verbatim>\<open>rasterize_simplified\<close> calls of \<^verbatim>\<open>forward\<close>.\<close>

definition rgb_args ::
  "projection_results \<Rightarrow> camera \<Rightarrow> vec list \<Rightarrow> vec \<Rightarrow> real list \<Rightarrow> rasterize_args" where
  "rgb_args pr cam rgbs bg opacities' =
     \<lparr> project_results = pr, viewpoint_camera = cam, colors = rgbs, bg_color = bg,
       opacities = opacities', rasterize_anti_aliased = False \<rparr>"

definition inverse_depth_args :: "projection_results \<Rightarrow> camera \<Rightarrow> real list \<Rightarrow> rasterize_args" where
  "inverse_depth_args pr cam opacities' =
     \<lparr> project_results = pr, viewpoint_camera = cam, colors = inverse_depth_colors (depths pr),
       bg_color = [0], opacities = opacities', rasterize_anti_aliased = False \<rparr>"

definition hard_inverse_depth_args ::
  "projection_results \<Rightarrow> camera \<Rightarrow> real list \<Rightarrow> rasterize_args" where
  "hard_inverse_depth_args pr cam opacities' =
     \<lparr> project_results = pr, viewpoint_camera = cam, colors = inverse_depth_colors (depths pr),
       bg_color = [0], opacities = map (\<lambda>a. a + (1 - a)) opacities',
       rasterize_anti_aliased = False \<rparr>"

text \<open>\<^verbatim>\<open>if self.anti_aliased: opacities = opacities * comp[:, None]\<close>.\<close>

definition compensate :: "renderer_module \<Rightarrow> real list \<Rightarrow> real list \<Rightarrow> error + real list" where
  "compensate self opacities0 comp' =
     (if anti_aliased self then bcast (\<lambda>a c. Inr (a * c)) opacities0 comp'
      else Inr opacities0)"

text \<open>
  \<^verbatim>\<open>forward\<close>. The result is the returned dictionary together with the calls made. Each
  channel is rendered only if its name is in \<^verbatim>\<open>render_types\<close>; the three \<^verbatim>\<open>if\<close>s of the source
  are the three channel computations below, in the source's order.
\<close>

text \<open>\<^verbatim>\<open>if render_types is None: render_types = ["rgb"]\<close>.\<close>

definition requested :: "string list option \<Rightarrow> string list" where
  "requested render_types = (case render_types of None \<Rightarrow> [''rgb''] | Some ts \<Rightarrow> ts)"

definition forward ::
  "('img, 'base) externals \<Rightarrow> renderer_module \<Rightarrow> camera \<Rightarrow> gaussian_model \<Rightarrow> vec \<Rightarrow> real
     \<Rightarrow> string list option \<Rightarrow> error + ('img render_outputs \<times> call list)" where
  "forward ext self cam pc bg scaling_modifier render_types =
     (let render_types = requested render_types;
          (pr, opacities0) = preprocess ext self pc cam scaling_modifier;
          is_gaussian_visible = map (\<lambda>r. 0 < r) (radii pr)
      in
      bindE (compensate self opacities0 (comp pr)) (\<lambda>opacities'.
      bindE (if ''rgb'' \<in> set render_types then
               bindE (shade_rgb ext self cam pc pr is_gaussian_visible) (\<lambda>rgbs.
               bindE (get_renderer self) (\<lambda>_.
               let args = rgb_args pr cam rgbs bg opacities'
               in Inr (Some (rasterize_simplified ext args),
                       [Call_spherical_harmonics, Call_model, Call_rasterize args])))
             else Inr (None, [])) (\<lambda>(rgb, rgb_calls).
      bindE (if ''inverse_depth'' \<in> set render_types then
               bindE (get_renderer self) (\<lambda>_.
               let args = inverse_depth_args pr cam opacities'
               in Inr (Some (rasterize_simplified ext args), [Call_rasterize args]))
             else Inr (None, [])) (\<lambda>(inverse_depth_im, inverse_depth_calls).
      bindE (if ''hard_inverse_depth'' \<in> set render_types then
               bindE (get_renderer self) (\<lambda>_.
               let args = hard_inverse_depth_args pr cam opacities'
               in Inr (Some (rasterize_simplified ext args), [Call_rasterize args]))
             else Inr (None, [])) (\<lambda>(hard_inverse_depth_im, hard_inverse_depth_calls).
      Inr (\<lparr> render = rgb,
              inverse_depth = inverse_depth_im,
              hard_inverse_depth = hard_inverse_depth_im,
              viewspace_points = xys pr,
              viewspace_points_grad_scale =
                [[1 / 2 * real_of_int (width cam), 1 / 2 * real_of_int (height cam)]],
              visibility_filter = is_gaussian_visible,
              out_radii = radii pr \<rparr>,
           Call_project # rgb_calls @ inverse_depth_calls @ hard_inverse_depth_calls))))))"

text \<open>
  \<^verbatim>\<open>training_forward\<close>: before \<^verbatim>\<open>warm_up\<close> the base renderer's own result is returned, from
  then on the result of \<^verbatim>\<open>forward\<close>. \<open>kwargs\<close> is the \<^verbatim>\<open>render_types\<close> keyword, if given.
\<close>

datatype ('img, 'base) training_outputs =
    Base_outputs 'base
  | Appearance_outputs "'img render_outputs"

definition training_forward ::
  "('img, 'base) externals \<Rightarrow> renderer_module \<Rightarrow> int \<Rightarrow> camera \<Rightarrow> gaussian_model \<Rightarrow> vec \<Rightarrow> real
     \<Rightarrow> string list option \<Rightarrow> error + (('img, 'base) training_outputs \<times> call list)" where
  "training_forward ext self step cam pc bg scaling_modifier kwargs =
     (if step < warm_up (optimization_config self) then
        bindE (get_renderer self) (\<lambda>_.
          Inr (Base_outputs (base_renderer ext cam pc bg scaling_modifier kwargs),
               [Call_base_renderer]))
      else
        bindE (forward ext self cam pc bg scaling_modifier kwargs) (\<lambda>(out, calls).
          Inr (Appearance_outputs out, calls)))"

subsection \<open>Setup, checkpoints and optimizers\<close>

text \<open>\<^verbatim>\<open>_setup_model\<close> (the device is not modelled).\<close>

definition setup_model :: "initializers \<Rightarrow> renderer_module \<Rightarrow> error + renderer_module" where
  "setup_model ini self =
     bindE (Model ini (model_config self))
       (\<lambda>m. Inr (self\<lparr> model := Some m, renderer := Some GSPlatRenderer \<rparr>))"

text \<open>
  \<^verbatim>\<open>setup\<close>, here \<open>renderer_setup\<close>. What it reads from the lightning module is
  \<^verbatim>\<open>trainer.datamodule.dataparser_outputs.appearance_group_ids\<close>, a dictionary (or \<^verbatim>\<open>None\<close>) from
  group names to tuples whose first component is the appearance id.
\<close>

record lightning_module =
  appearance_group_ids :: "(string \<times> int \<times> real) list option"

definition renderer_setup ::
  "initializers \<Rightarrow> renderer_module \<Rightarrow> string \<Rightarrow> lightning_module option
     \<Rightarrow> error + renderer_module" where
  "renderer_setup ini self stage lightning_module =
     (case lightning_module of
        None \<Rightarrow> Inr self
      | Some lm \<Rightarrow>
          let self' =
            (if n_appearances (model_config self) \<le> 0 then
               let max_input_id =
                     (case appearance_group_ids lm of
                        None \<Rightarrow> 0
                      | Some ids \<Rightarrow>
                          fold (\<lambda>i max_input_id. if fst i > max_input_id then fst i else max_input_id)
                            (map snd ids) 0);
                   n_appearances' = max_input_id + 1
               in self\<lparr> model_config := (model_config self)\<lparr> n_appearances := n_appearances' \<rparr> \<rparr>
             else self)
          in setup_model ini self')"

text \<open>
  \<^verbatim>\<open>load_state_dict\<close>. A state dictionary maps parameter names to tensors, given by rows;
  \<^verbatim>\<open>shape[0]\<close> is the number of rows. \<^verbatim>\<open>super().load_state_dict\<close> is the framework's, a
  parameter of the model: it returns the module with its parameters loaded, and the
  lists of missing and unexpected keys (of some type \<open>'k\<close>).
\<close>

type_synonym state_dict = "string \<rightharpoonup> vec list"

type_synonym 'k framework_load =
  "renderer_module \<Rightarrow> state_dict \<Rightarrow> bool \<Rightarrow> error + (renderer_module \<times> 'k)"

definition load_state_dict ::
  "'k framework_load \<Rightarrow> initializers \<Rightarrow> renderer_module \<Rightarrow> state_dict \<Rightarrow> bool
     \<Rightarrow> error + (renderer_module \<times> 'k)" where
  "load_state_dict super_load_state_dict ini self sd strict =
     (case sd ''model.embedding.weight'' of
        None \<Rightarrow> Inl KeyError
      | Some weight \<Rightarrow>
          let self' = self\<lparr> model_config :=
                            (model_config self)\<lparr> n_appearances := int (length weight) \<rparr> \<rparr>
          in bindE (setup_model ini self') (\<lambda>self''. super_load_state_dict self'' sd strict))"

text \<open>\<^verbatim>\<open>training_setup\<close>: both calls pass \<^verbatim>\<open>optimization_config.lr_final_factor\<close>.\<close>

datatype parameters = Embedding_parameters "vec list" | Network_parameters network

definition training_setup ::
  "renderer_module \<Rightarrow> error + (parameters optimizer list \<times> scheduler list)" where
  "training_setup self =
     bindE (get_model self) (\<lambda>m.
     let oc = optimization_config self in
     bindE (create_optimizer_and_scheduler (Embedding_parameters (embedding m)) ''embedding''
              (embedding_lr_init oc) (lr_final_factor oc) (max_steps oc) (eps oc) (warm_up oc))
       (\<lambda>(embedding_optimizer, embedding_scheduler).
     bindE (create_optimizer_and_scheduler (Network_parameters (network m)) ''embedding_network''
              (lr_init oc) (lr_final_factor oc) (max_steps oc) (eps oc) (warm_up oc))
       (\<lambda>(network_optimizer, network_scheduler).
     Inr ([embedding_optimizer, network_optimizer], [embedding_scheduler, network_scheduler]))))"

text \<open>The multiplier each scheduler built by \<^verbatim>\<open>training_setup\<close> gives at step \<open>t\<close>.\<close>

definition lr_multipliers :: "renderer_module \<Rightarrow> int \<Rightarrow> error + (error + pynum) list" where
  "lr_multipliers self t =
     bindE (training_setup self)
       (\<lambda>(optimizers, schedulers). Inr (map (\<lambda>s. sched_lr_lambda s t) schedulers))"

text \<open>The number of rows of the module's embedding table, if it has a model.\<close>

definition embedding_rows :: "renderer_module \<Rightarrow> nat option" where
  "embedding_rows self = map_option (\<lambda>m. length (embedding m)) (model self)"

subsection \<open>Concrete inputs\<close>

text \<open>
  A small shading model (two appearances, two feature channels, not view dependent), as
  \<open>Model\<close> builds it from zero weights, and a renderer module that has been set up with it.
\<close>

definition example_initializers :: initializers where
  "example_initializers =
     \<lparr> embedding_init = (\<lambda>i j. 0),
       network_init = \<lparr> hidden_stack = (\<lambda>a x. x), out_weight = (\<lambda>i j. 0), out_bias = (\<lambda>i. 0) \<rparr>,
       PositionalEncoding = (\<lambda>c n. \<lparr> pe_forward = (\<lambda>v. v), get_output_n_channels = c \<rparr>) \<rparr>"

definition example_model_config :: model_config where
  "example_model_config = ModelConfig \<lparr> n_gaussian_feature_dims := 2, n_appearances := 2,
     n_appearance_embedding_dims := 1, n_neurons := 3 \<rparr>"

definition example_model :: model where
  "example_model =
     \<lparr> config = example_model_config,
       embedding = [[0], [0]],
       view_direction_encoding = None,
       network = \<lparr> net_n_input_dims = 3, net_hidden = (\<lambda>x. x),
                   net_out_weight = [[0, 0, 0], [0, 0, 0], [0, 0, 0]], net_out_bias = [0, 0, 0],
                   net_output_activation = Sigmoid \<rparr> \<rparr>"

definition example_module :: renderer_module where
  "example_module =
     \<lparr> anti_aliased = True, model_config = example_model_config,
       optimization_config = OptimizationConfig, filter_2d_kernel_size = 3 / 10,
       model = Some example_model, renderer = Some GSPlatRenderer, mip = False \<rparr>"

text \<open>
  The same model and module with a bias in the third output channel: the network then
  gives \<open>[1/2, 1/2, 1/3]\<close> for every row, and the predicted offset is \<open>[0, 0, -1/3]\<close>.
\<close>

definition example_biased_model :: model where
  "example_biased_model =
     example_model \<lparr> network := (network example_model) \<lparr> net_out_bias := [0, 0, - ln 2] \<rparr> \<rparr>"

definition example_biased_module :: renderer_module where
  "example_biased_module = example_module \<lparr> model := Some example_biased_model \<rparr>"

text \<open>The same module under another schedule.\<close>

definition example_schedule :: "real \<Rightarrow> int \<Rightarrow> int \<Rightarrow> renderer_module" where
  "example_schedule f ms w =
     example_module \<lparr> optimization_config :=
       OptimizationConfig \<lparr> lr_final_factor := f, max_steps := ms, warm_up := w \<rparr> \<rparr>"

text \<open>
  A scene of two points, the first visible and the second not, with collaborators that
  return fixed values; the rasterizer returns its own arguments as the image.
\<close>

definition example_projection :: projection_results where
  "example_projection =
     \<lparr> xys = [[0, 0], [1, 1]], depths = [2, - 1], radii = [3, 0],
       conics = [[1, 0, 1], [1, 0, 1]], comp = [1 / 2, 1], num_tiles_hit = [1, 0],
       cov3d = [[], []] \<rparr>"

definition example_externals :: "(rasterize_args, unit) externals" where
  "example_externals =
     \<lparr> project = (\<lambda>means3D scales rotations cam scaling_modifier kernel_size. example_projection),
       spherical_harmonics = (\<lambda>degree dirs coeffs. map (\<lambda>d. [1, - 1, 1 / 5]) dirs),
       rasterize_simplified = (\<lambda>args. args),
       base_renderer = (\<lambda>cam pc bg scaling_modifier kwargs. ()) \<rparr>"

definition example_pc :: gaussian_model where
  "example_pc =
     \<lparr> get_xyz = [[0, 0, 1], [0, 0, - 1]], get_scaling = [[1, 1, 1], [1, 1, 1]],
       get_rotation = [[1, 0, 0, 0], [1, 0, 0, 0]], get_opacities = [1 / 2, 1 / 4],
       get_features = [[[0, 0, 0]], [[0, 0, 0]]], active_sh_degree = 0,
       get_appearance_features = [[0, 0], [0, 0]],
       get_3d_filtered_scales_and_opacities = ([1 / 2, 1 / 4], [[1, 1, 1], [1, 1, 1]]) \<rparr>"

definition example_camera :: camera where
  "example_camera = \<lparr> camera_center = [0, 0, 0], width = 4, height = 2, appearance_id = [1] \<rparr>"

text \<open>
  A module that has not been set up and whose \<^verbatim>\<open>n_appearances\<close> is the default \<open>-1\<close>, and
  the appearance groups of a data set with the ids \<open>0\<close>, \<open>2\<close> and \<open>1\<close>.
\<close>

definition example_fresh_module :: renderer_module where
  "example_fresh_module =
     \<lparr> anti_aliased = True,
       model_config = example_model_config \<lparr> n_appearances := - 1 \<rparr>,
       optimization_config = OptimizationConfig, filter_2d_kernel_size = 3 / 10,
       model = None, renderer = None, mip = False \<rparr>"

definition example_lightning_module :: lightning_module where
  "example_lightning_module =
     \<lparr> appearance_group_ids = Some [(''a'', 0, 0), (''b'', 2, 1), (''c'', 1, 1 / 2)] \<rparr>"

text \<open>
  A checkpoint whose embedding table has three rows, and a framework load that copies
  the persisted table into the module when the shapes agree and raises otherwise.
\<close>

definition example_state_dict :: state_dict where
  "example_state_dict = [''model.embedding.weight'' \<mapsto> [[1], [2], [3]]]"

definition example_framework_load :: "unit framework_load" where
  "example_framework_load self sd strict =
     (case model self of
        None \<Rightarrow> Inl AttributeError
      | Some m \<Rightarrow>
          (case sd ''model.embedding.weight'' of
             None \<Rightarrow> if strict then Inl RuntimeError else Inr (self, ())
           | Some w \<Rightarrow>
               if map length w = map length (embedding m)
               then Inr (self \<lparr> model := Some (m \<lparr> embedding := w \<rparr>) \<rparr>, ())
               else Inl RuntimeError))"

section \<open>Properties\<close>

subsection \<open>The exception monad and the tensor operations\<close>

lemma bindE_Inr_iff: "bindE m f = Inr y \<longleftrightarrow> (\<exists>x. m = Inr x \<and> f x = Inr y)"
  by (cases m) (simp_all add: bindE_def)

lemma bindE_Inr [simp]: "bindE (Inr x) f = f x"
  by (simp add: bindE_def)

lemma bindE_Inl [simp]: "bindE (Inl e) f = Inl e"
  by (simp add: bindE_def)

lemma collect_Inr_iff: "collect ms = Inr xs \<longleftrightarrow> ms = map Inr xs"
proof (induction ms arbitrary: xs)
  case Nil
  show ?case by auto
next
  case (Cons m ms)
  show ?case
  proof (cases m)
    case (Inl e)
    then show ?thesis by (cases xs) simp_all
  next
    case m: (Inr x)
    show ?thesis
    proof (cases "collect ms")
      case (Inl e)
      then have "ms \<noteq> map Inr ys" for ys using Cons.IH [of ys] by simp
      then show ?thesis using m Inl by (cases xs) simp_all
    next
      case (Inr ys)
      then have "ms = map Inr ys" using Cons.IH [of ys] by simp
      then show ?thesis using m Inr by (cases xs) (auto simp: inj_on_def map_eq_conv)
    qed
  qed
qed

lemma collect_map_Inr:
  assumes "collect (map f xs) = Inr ys"
  shows "length ys = length xs" and "\<And>i. i < length xs \<Longrightarrow> f (xs ! i) = Inr (ys ! i)"
proof -
  have eq: "map f xs = map Inr ys" using assms by (simp add: collect_Inr_iff)
  then show len: "length ys = length xs" by (metis length_map)
  fix i assume "i < length xs"
  then show "f (xs ! i) = Inr (ys ! i)" using eq len by (metis nth_map)
qed

lemma collect_map_total:
  assumes "\<And>x. x \<in> set xs \<Longrightarrow> f x = Inr (g x)"
  shows "collect (map f xs) = Inr (map g xs)"
  using assms by (simp add: collect_Inr_iff)

lemma expand_to_Inr:
  assumes "expand_to n xs = Inr ys"
  shows "length ys = n" and "set ys \<subseteq> set xs"
proof -
  have "ys = xs \<or> (length xs = 1 \<and> ys = replicate n (hd xs))"
    using assms by (auto simp: expand_to_def split: if_splits)
  moreover have "hd xs \<in> set xs" if "length xs = 1"
    using that by (cases xs) auto
  ultimately show "set ys \<subseteq> set xs" by auto
  show "length ys = n"
    using assms by (auto simp: expand_to_def split: if_splits)
qed

lemma expand_to_same: "length xs = n \<Longrightarrow> expand_to n xs = Inr xs"
  by (simp add: expand_to_def)

lemma expand_rows_Inr:
  assumes "expand_rows n c vals = Inr rows"
  shows "length rows = n"
    and "\<And>r. r \<in> set rows \<Longrightarrow> length r = c \<and> (\<exists>v \<in> set vals. set r \<subseteq> set v)"
proof -
  obtain rows0 where e0: "expand_to n vals = Inr rows0"
    and c: "collect (map (expand_to c) rows0) = Inr rows"
    using assms by (auto simp: expand_rows_def bindE_Inr_iff)
  show "length rows = n"
    using collect_map_Inr(1) [OF c] expand_to_Inr(1) [OF e0] by simp
  fix r assume "r \<in> set rows"
  then obtain i where i: "i < length rows" "r = rows ! i" by (auto simp: in_set_conv_nth)
  then have i0: "i < length rows0" using collect_map_Inr(1) [OF c] by simp
  have er: "expand_to c (rows0 ! i) = Inr r" using collect_map_Inr(2) [OF c i0] i by simp
  have "rows0 ! i \<in> set vals" using expand_to_Inr(2) [OF e0] i0 by auto
  then show "length r = c \<and> (\<exists>v \<in> set vals. set r \<subseteq> set v)"
    using expand_to_Inr [OF er] by blast
qed

lemma expand_rows_same:
  assumes "length vals = n" and "\<And>r. r \<in> set vals \<Longrightarrow> length r = c"
  shows "expand_rows n c vals = Inr vals"
proof -
  have "collect (map (expand_to c) vals) = Inr (map (\<lambda>r. r) vals)"
    by (rule collect_map_total) (simp add: assms(2) expand_to_same)
  then show ?thesis using assms(1) by (simp add: expand_rows_def expand_to_same)
qed

lemma length_scatter: "length (scatter msk buf vs) = length buf"
  by (induction msk buf vs rule: scatter.induct) auto

lemma set_scatter: "set (scatter msk buf vs) \<subseteq> set buf \<union> set vs"
  by (induction msk buf vs rule: scatter.induct) auto

lemma scatter_unselected:
  "i < length buf \<Longrightarrow> i < length msk \<Longrightarrow> \<not> msk ! i \<Longrightarrow> scatter msk buf vs ! i = buf ! i"
proof (induction msk buf vs arbitrary: i rule: scatter.induct)
  case (1 msk b buf v vs)
  then show ?case by (cases i) auto
next
  case (2 msk b buf vs)
  then show ?case by (cases i) auto
qed auto

lemma select_scatter:
  "length buf = length msk \<Longrightarrow> length vs = length (filter id msk) \<Longrightarrow>
   map snd (filter fst (zip msk (scatter msk buf vs))) = vs"
  by (induction msk buf vs rule: scatter.induct) simp_all

lemma masked_assign_Inr:
  assumes "masked_assign msk buf c vals = Inr res"
  shows "length res = length buf"
    and "\<exists>rows. expand_rows (length (filter id msk)) c vals = Inr rows \<and>
           res = scatter msk buf rows \<and> masked_select msk res = Inr rows"
proof -
  have len: "length msk = length buf"
    using assms by (auto simp: masked_assign_def split: if_splits)
  obtain rows where rows: "expand_rows (length (filter id msk)) c vals = Inr rows"
    and res: "res = scatter msk buf rows"
    using assms len by (auto simp: masked_assign_def bindE_Inr_iff)
  show "length res = length buf" by (simp add: res length_scatter)
  have "length rows = length (filter id msk)" by (rule expand_rows_Inr(1) [OF rows])
  then have "map snd (filter fst (zip msk res)) = rows"
    unfolding res using len by (intro select_scatter) simp_all
  then have "masked_select msk res = Inr rows"
    by (simp add: masked_select_def res length_scatter len)
  then show "\<exists>rows. expand_rows (length (filter id msk)) c vals = Inr rows \<and>
           res = scatter msk buf rows \<and> masked_select msk res = Inr rows"
    using rows res by blast
qed

lemma clamp_unit: "0 \<le> clamp x 0 1 \<and> clamp x 0 1 \<le> 1"
  by (simp add: clamp_def)

subsection \<open>What \<^verbatim>\<open>forward\<close> returns\<close>

text \<open>
  Whenever \<^verbatim>\<open>forward\<close> returns, every requested channel was rendered by one
  \<^verbatim>\<open>rasterize_simplified\<close> call with the arguments below, and nothing else was rendered.
\<close>

lemma forward_returns:
  assumes "forward ext self cam pc bg sm rts = Inr (out, calls)"
    and "preprocess ext self pc cam sm = (pr, op0)"
  shows "\<exists>op' rgb_call.
      compensate self op0 (comp pr) = Inr op' \<and>
      (if ''rgb'' \<in> set (requested rts)
       then \<exists>rgbs. shade_rgb ext self cam pc pr (map (\<lambda>r. 0 < r) (radii pr)) = Inr rgbs \<and>
              rgb_call = Some (rgb_args pr cam rgbs bg op')
       else rgb_call = None) \<and>
      out = \<lparr> render = map_option (rasterize_simplified ext) rgb_call,
              inverse_depth = (if ''inverse_depth'' \<in> set (requested rts)
                 then Some (rasterize_simplified ext (inverse_depth_args pr cam op')) else None),
              hard_inverse_depth = (if ''hard_inverse_depth'' \<in> set (requested rts)
                 then Some (rasterize_simplified ext (hard_inverse_depth_args pr cam op')) else None),
              viewspace_points = xys pr,
              viewspace_points_grad_scale =
                [[1 / 2 * real_of_int (width cam), 1 / 2 * real_of_int (height cam)]],
              visibility_filter = map (\<lambda>r. 0 < r) (radii pr),
              out_radii = radii pr \<rparr> \<and>
      calls = Call_project #
        (case rgb_call of None \<Rightarrow> []
         | Some a \<Rightarrow> [Call_spherical_harmonics, Call_model, Call_rasterize a]) @
        (if ''inverse_depth'' \<in> set (requested rts)
         then [Call_rasterize (inverse_depth_args pr cam op')] else []) @
        (if ''hard_inverse_depth'' \<in> set (requested rts)
         then [Call_rasterize (hard_inverse_depth_args pr cam op')] else [])"
  using assms
  unfolding forward_def Let_def
  by (auto simp: bindE_Inr_iff split: if_splits)

lemma forward_channels:
  assumes "forward ext self cam pc bg sm rts = Inr (out, calls)"
  shows "(render out \<noteq> None) = (''rgb'' \<in> set (requested rts))"
    and "(inverse_depth out \<noteq> None) = (''inverse_depth'' \<in> set (requested rts))"
    and "(hard_inverse_depth out \<noteq> None) = (''hard_inverse_depth'' \<in> set (requested rts))"
proof -
  obtain pr op0 where pp: "preprocess ext self pc cam sm = (pr, op0)"
    by (cases "preprocess ext self pc cam sm")
  from forward_returns [OF assms pp]
  obtain op' rgb_call where
    rgb: "if ''rgb'' \<in> set (requested rts)
       then \<exists>rgbs. shade_rgb ext self cam pc pr (map (\<lambda>r. 0 < r) (radii pr)) = Inr rgbs \<and>
              rgb_call = Some (rgb_args pr cam rgbs bg op')
       else rgb_call = None"
    and out: "out = \<lparr> render = map_option (rasterize_simplified ext) rgb_call,
              inverse_depth = (if ''inverse_depth'' \<in> set (requested rts)
                 then Some (rasterize_simplified ext (inverse_depth_args pr cam op')) else None),
              hard_inverse_depth = (if ''hard_inverse_depth'' \<in> set (requested rts)
                 then Some (rasterize_simplified ext (hard_inverse_depth_args pr cam op')) else None),
              viewspace_points = xys pr,
              viewspace_points_grad_scale =
                [[1 / 2 * real_of_int (width cam), 1 / 2 * real_of_int (height cam)]],
              visibility_filter = map (\<lambda>r. 0 < r) (radii pr),
              out_radii = radii pr \<rparr>"
    by (elim exE conjE)
  show "(render out \<noteq> None) = (''rgb'' \<in> set (requested rts))"
    using rgb by (cases "''rgb'' \<in> set (requested rts)") (auto simp: out)
  show "(inverse_depth out \<noteq> None) = (''inverse_depth'' \<in> set (requested rts))"
    by (simp add: out)
  show "(hard_inverse_depth out \<noteq> None) = (''hard_inverse_depth'' \<in> set (requested rts))"
    by (simp add: out)
qed

lemma forward_cong:
  assumes "(''rgb'' \<in> set (requested a)) = (''rgb'' \<in> set (requested b))"
    and "(''inverse_depth'' \<in> set (requested a)) = (''inverse_depth'' \<in> set (requested b))"
    and "(''hard_inverse_depth'' \<in> set (requested a)) = (''hard_inverse_depth'' \<in> set (requested b))"
  shows "forward ext self cam pc bg sm a = forward ext self cam pc bg sm b"
  unfolding forward_def Let_def assms ..

lemma forward_calls_model:
  assumes "forward ext self cam pc bg sm rts = Inr (out, calls)"
  shows "(Call_model \<in> set calls) = (''rgb'' \<in> set (requested rts))"
proof -
  obtain pr op0 where pp: "preprocess ext self pc cam sm = (pr, op0)"
    by (cases "preprocess ext self pc cam sm")
  from forward_returns [OF assms pp]
  obtain op' rgb_call where
    rgb: "if ''rgb'' \<in> set (requested rts)
       then \<exists>rgbs. shade_rgb ext self cam pc pr (map (\<lambda>r. 0 < r) (radii pr)) = Inr rgbs \<and>
              rgb_call = Some (rgb_args pr cam rgbs bg op')
       else rgb_call = None"
    and calls: "calls = Call_project #
        (case rgb_call of None \<Rightarrow> []
         | Some a \<Rightarrow> [Call_spherical_harmonics, Call_model, Call_rasterize a]) @
        (if ''inverse_depth'' \<in> set (requested rts)
         then [Call_rasterize (inverse_depth_args pr cam op')] else []) @
        (if ''hard_inverse_depth'' \<in> set (requested rts)
         then [Call_rasterize (hard_inverse_depth_args pr cam op')] else [])"
    by (elim exE conjE)
  show ?thesis
    using rgb by (cases "''rgb'' \<in> set (requested rts)") (auto simp: calls)
qed

subsection \<open>The example scene\<close>

lemma example_model_built: "Model example_initializers example_model_config = Inr example_model"
  by (simp add: Model_def example_initializers_def example_model_config_def ModelConfig_def
      example_model_def get_network_with_skip_layers_def bindE_def upt_rec numeral_nat)

lemma example_preprocess:
  "preprocess example_externals example_module example_pc example_camera 1
     = (example_projection, [1 / 2, 1 / 4])"
  by (simp add: preprocess_def example_externals_def example_module_def example_pc_def)

lemma example_shade:
  "shade_rgb example_externals example_module example_camera example_pc example_projection
     [True, False] = Inr [[1, 0, 7 / 10], [0, 0, 0]]"
  by (simp add: shade_rgb_def view_directions_of_def base_rgb_of_def rgb_offset_of_def
      masked_select_def tensor_sub_row_def bcast_def vector_norm_def example_pc_def
      example_camera_def example_externals_def example_module_def get_model_def predict_def
      Model_forward_def example_model_def embedding_lookup_def example_model_config_def
      ModelConfig_def concat_last.simps network_forward_def network_row_def dot_def sigmoid_def
      tensor_add_def masked_assign_def expand_rows_def expand_to_def clamp_def
      example_projection_def numeral_3_eq_3)

lemma example_forward:
  "forward example_externals example_module example_camera example_pc [0, 0, 0] 1 rts =
     Inr (\<lparr> render = (if ''rgb'' \<in> set (requested rts)
             then Some (rgb_args example_projection example_camera [[1, 0, 7 / 10], [0, 0, 0]]
                          [0, 0, 0] [1 / 4, 1 / 4]) else None),
            inverse_depth = (if ''inverse_depth'' \<in> set (requested rts)
             then Some (inverse_depth_args example_projection example_camera [1 / 4, 1 / 4])
             else None),
            hard_inverse_depth = (if ''hard_inverse_depth'' \<in> set (requested rts)
             then Some (hard_inverse_depth_args example_projection example_camera [1 / 4, 1 / 4])
             else None),
            viewspace_points = [[0, 0], [1, 1]],
            viewspace_points_grad_scale = [[2, 1]],
            visibility_filter = [True, False],
            out_radii = [3, 0] \<rparr>,
          Call_project #
          (if ''rgb'' \<in> set (requested rts)
           then [Call_spherical_harmonics, Call_model,
                 Call_rasterize (rgb_args example_projection example_camera
                   [[1, 0, 7 / 10], [0, 0, 0]] [0, 0, 0] [1 / 4, 1 / 4])] else []) @
          (if ''inverse_depth'' \<in> set (requested rts)
           then [Call_rasterize (inverse_depth_args example_projection example_camera [1 / 4, 1 / 4])]
           else []) @
          (if ''hard_inverse_depth'' \<in> set (requested rts)
           then [Call_rasterize (hard_inverse_depth_args example_projection example_camera
                   [1 / 4, 1 / 4])]
           else []))"
proof -
  have r: "radii example_projection = [3, 0]" "comp example_projection = [1 / 2, 1]"
    "xys example_projection = [[0, 0], [1, 1]]"
    by (simp_all add: example_projection_def)
  have c: "compensate example_module [1 / 2, 1 / 4] [1 / 2, 1] = Inr [1 / 4, 1 / 4]"
    by (simp add: compensate_def example_module_def bcast_def)
  have g: "get_renderer example_module = Inr GSPlatRenderer"
    by (simp add: get_renderer_def example_module_def)
  have e: "rasterize_simplified example_externals = (\<lambda>args. args)"
    by (simp add: example_externals_def)
  have w: "width example_camera = 4" "height example_camera = 2"
    by (simp_all add: example_camera_def)
  show ?thesis
    by (simp add: forward_def Let_def example_preprocess r c g e w example_shade)
qed

subsection \<open>Warm-up dispatch\<close>

text \<open>
  C1. For a module that has been set up (its \<^verbatim>\<open>renderer\<close> attribute exists): at a step
  \<open>t < warm_up\<close>, \<^verbatim>\<open>training_forward\<close> returns the base renderer's own result, and the base
  renderer is the only call it makes, so the shading model is not invoked and nothing is
  rasterized by the module. At a step \<open>t \<ge> warm_up\<close> it is \<^verbatim>\<open>forward\<close>, called with the same
  arguments: it returns what \<^verbatim>\<open>forward\<close> returns, raises what it raises, and makes its calls;
  these include the shading model exactly when the rgb channel is requested, as it is by
  default.
\<close>

theorem training_forward_dispatch:
  assumes "renderer self = Some r"
  shows "(step < warm_up (optimization_config self) \<longrightarrow>
            training_forward ext self step cam pc bg sm kwargs
              = Inr (Base_outputs (base_renderer ext cam pc bg sm kwargs), [Call_base_renderer]) \<and>
            (\<forall>res calls. training_forward ext self step cam pc bg sm kwargs = Inr (res, calls) \<longrightarrow>
               Call_model \<notin> set calls)) \<and>
         (warm_up (optimization_config self) \<le> step \<longrightarrow>
            training_forward ext self step cam pc bg sm kwargs
              = bindE (forward ext self cam pc bg sm kwargs)
                  (\<lambda>(out, calls). Inr (Appearance_outputs out, calls)) \<and>
            (\<forall>res calls. training_forward ext self step cam pc bg sm kwargs = Inr (res, calls) \<longrightarrow>
               (\<exists>out. res = Appearance_outputs out \<and>
                  forward ext self cam pc bg sm kwargs = Inr (out, calls)) \<and>
               (Call_model \<in> set calls) = (''rgb'' \<in> set (requested kwargs))))"
proof (intro conjI impI allI)
  assume early: "step < warm_up (optimization_config self)"
  show base: "training_forward ext self step cam pc bg sm kwargs
      = Inr (Base_outputs (base_renderer ext cam pc bg sm kwargs), [Call_base_renderer])"
    using early assms by (simp add: training_forward_def get_renderer_def)
  fix res calls
  assume "training_forward ext self step cam pc bg sm kwargs = Inr (res, calls)"
  then have "calls = [Call_base_renderer]" unfolding base by simp
  then show "Call_model \<notin> set calls" by simp
next
  assume late: "warm_up (optimization_config self) \<le> step"
  show eq: "training_forward ext self step cam pc bg sm kwargs
      = bindE (forward ext self cam pc bg sm kwargs)
          (\<lambda>(out, calls). Inr (Appearance_outputs out, calls))"
    using late by (simp add: training_forward_def)
  fix res calls
  assume "training_forward ext self step cam pc bg sm kwargs = Inr (res, calls)"
  then obtain out where res: "res = Appearance_outputs out"
    and f: "forward ext self cam pc bg sm kwargs = Inr (out, calls)"
    unfolding eq by (auto simp: bindE_Inr_iff)
  show "\<exists>out. res = Appearance_outputs out \<and> forward ext self cam pc bg sm kwargs = Inr (out, calls)"
    using res f by blast
  show "(Call_model \<in> set calls) = (''rgb'' \<in> set (requested kwargs))"
    by (rule forward_calls_model [OF f])
qed

text \<open>With the default schedule (\<open>warm_up = 4000\<close>): step \<open>0\<close> and step \<open>4000\<close>.\<close>

theorem training_forward_dispatch_witness:
  "renderer example_module = Some GSPlatRenderer \<and>
   (0::int) < warm_up (optimization_config example_module) \<and>
   training_forward example_externals example_module 0 example_camera example_pc [0, 0, 0] 1 None
     = Inr (Base_outputs (), [Call_base_renderer]) \<and>
   warm_up (optimization_config example_module) \<le> 4000 \<and>
   training_forward example_externals example_module 4000 example_camera example_pc [0, 0, 0] 1 None
     = bindE (forward example_externals example_module example_camera example_pc [0, 0, 0] 1 None)
         (\<lambda>(out, calls). Inr (Appearance_outputs out, calls))"
proof -
  have h: "renderer example_module = Some GSPlatRenderer"
    by (simp add: example_module_def)
  have w: "(0::int) < warm_up (optimization_config example_module)"
    "warm_up (optimization_config example_module) \<le> 4000"
    by (simp_all add: example_module_def OptimizationConfig_def)
  have b: "base_renderer example_externals example_camera example_pc [0, 0, 0] 1 None = ()"
    by simp
  have 1: "training_forward example_externals example_module 0 example_camera example_pc
             [0, 0, 0] 1 None = Inr (Base_outputs (), [Call_base_renderer])"
    using training_forward_dispatch [OF h, of 0 example_externals example_camera example_pc
        "[0, 0, 0]" 1 None] w(1) by simp
  have 2: "training_forward example_externals example_module 4000 example_camera example_pc
             [0, 0, 0] 1 None
     = bindE (forward example_externals example_module example_camera example_pc [0, 0, 0] 1 None)
         (\<lambda>(out, calls). Inr (Appearance_outputs out, calls))"
    using training_forward_dispatch [OF h, of 4000 example_externals example_camera example_pc
        "[0, 0, 0]" 1 None, THEN conjunct2, THEN mp, OF w(2)] by (rule conjunct1)
  from h w(1) 1 w(2) 2 show ?thesis by (intro conjI)
qed

subsection \<open>The colours of the rgb channel\<close>

lemma shade_rgb_Inr:
  assumes "shade_rgb ext self cam pc pr vis = Inr rgbs"
  shows "\<exists>dirs base off composed.
           view_directions_of cam pc vis = Inr dirs \<and>
           base_rgb_of ext pc vis dirs = Inr base \<and>
           rgb_offset_of self cam pc vis dirs = Inr off \<and>
           tensor_add base off = Inr composed \<and>
           masked_assign vis (replicate (length (radii pr)) (replicate 3 0)) 3
             (map (map (\<lambda>x. clamp x 0 1)) composed) = Inr rgbs"
  using assms unfolding shade_rgb_def by (auto simp: bindE_Inr_iff)

lemma shade_rgb_colors:
  assumes "shade_rgb ext self cam pc pr (map (\<lambda>r. 0 < r) (radii pr)) = Inr rgbs"
  shows "length rgbs = length (radii pr)"
    and "\<And>row. row \<in> set rgbs \<Longrightarrow> length row = 3 \<and> (\<forall>x \<in> set row. 0 \<le> x \<and> x \<le> 1)"
    and "\<And>i. i < length (radii pr) \<Longrightarrow> radii pr ! i \<le> 0 \<Longrightarrow> rgbs ! i = [0, 0, 0]"
proof -
  let ?vis = "map (\<lambda>r. 0 < r) (radii pr)"
  let ?buf = "replicate (length (radii pr)) (replicate 3 (0::real))"
  obtain composed where
    ma: "masked_assign ?vis ?buf 3 (map (map (\<lambda>x. clamp x 0 1)) composed) = Inr rgbs"
    using shade_rgb_Inr [OF assms] by blast
  obtain rows where
    rows: "expand_rows (length (filter id ?vis)) 3 (map (map (\<lambda>x. clamp x 0 1)) composed) = Inr rows"
    and res: "rgbs = scatter ?vis ?buf rows"
    using masked_assign_Inr(2) [OF ma] by blast
  show "length rgbs = length (radii pr)"
    using masked_assign_Inr(1) [OF ma] by simp
  show "length row = 3 \<and> (\<forall>x \<in> set row. 0 \<le> x \<and> x \<le> 1)" if "row \<in> set rgbs" for row
  proof -
    have "row \<in> set ?buf \<or> row \<in> set rows"
      using that set_scatter [of ?vis ?buf rows] unfolding res by blast
    then show ?thesis
    proof
      assume "row \<in> set ?buf"
      then have "row = replicate 3 0" by auto
      then show ?thesis by simp
    next
      assume "row \<in> set rows"
      then obtain v where l: "length row = 3"
        and v: "v \<in> set (map (map (\<lambda>x. clamp x 0 1)) composed)" and sub: "set row \<subseteq> set v"
        using expand_rows_Inr(2) [OF rows] by blast
      have "\<forall>x \<in> set v. 0 \<le> x \<and> x \<le> 1" using v clamp_unit by auto
      then show ?thesis using l sub by blast
    qed
  qed
  show "rgbs ! i = [0, 0, 0]" if "i < length (radii pr)" "radii pr ! i \<le> 0" for i
  proof -
    have "scatter ?vis ?buf rows ! i = ?buf ! i"
      using that by (intro scatter_unselected) simp_all
    then show ?thesis using that by (simp add: res numeral_3_eq_3)
  qed
qed

lemma masked_select_Inr:
  assumes "masked_select msk xs = Inr ys"
  shows "length msk = length xs" and "ys = map snd (filter fst (zip msk xs))"
  using assms by (auto simp: masked_select_def split: if_splits)

lemma bcast_same_length:
  assumes "length xs = length ys"
    and "\<And>x y. (x, y) \<in> set (zip xs ys) \<Longrightarrow> f x y = Inr (g x y)"
  shows "bcast f xs ys = Inr (map2 g xs ys)"
proof -
  have "collect (map (\<lambda>(x, y). f x y) (zip xs ys)) = Inr (map (\<lambda>(x, y). g x y) (zip xs ys))"
    by (rule collect_map_total) (auto simp: assms(2))
  then show ?thesis using assms(1) by (simp add: bcast_def)
qed

lemma tensor_add_regular:
  assumes "length a = n" "length b = n"
    and "\<And>r. r \<in> set a \<Longrightarrow> length r = c" and "\<And>r. r \<in> set b \<Longrightarrow> length r = c"
  shows "tensor_add a b = Inr (map2 (map2 (+)) a b)"
  unfolding tensor_add_def
proof (rule bcast_same_length)
  show "length a = length b" using assms(1,2) by simp
  fix x y assume xy: "(x, y) \<in> set (zip a b)"
  then have "length x = length y"
    using assms(3,4) by (auto dest: set_zip_leftD set_zip_rightD)
  then show "bcast (\<lambda>x y. Inr (x + y)) x y = Inr (map2 (+) x y)"
    by (rule bcast_same_length) simp
qed

lemma tensor_sub_row_regular:
  assumes "\<And>p. p \<in> set a \<Longrightarrow> length p = length c"
  shows "tensor_sub_row a c = Inr (map (\<lambda>p. map2 (-) p c) a)"
  unfolding tensor_sub_row_def
proof (rule collect_map_total)
  fix p assume "p \<in> set a"
  then have "length p = length c" by (rule assms)
  then show "bcast (\<lambda>x y. Inr (x - y)) p c = Inr (map2 (-) p c)"
    by (rule bcast_same_length) simp
qed

lemma map_map_map2:
  "map (map f) (map2 (map2 g) a b) = map2 (map2 (\<lambda>x y. f (g x y))) a b"
  by (simp add: case_prod_beta comp_def)


lemma view_directions_of_Inr:
  assumes "view_directions_of cam pc vis = Inr dirs"
    and "\<And>p. p \<in> set (get_xyz pc) \<Longrightarrow> length p = length (camera_center cam)"
  shows "dirs = map (\<lambda>p. map (\<lambda>x. x / sqrt (sum_list (map (\<lambda>y. y * y)
                                     (map2 (-) p (camera_center cam)))))
                          (map2 (-) p (camera_center cam)))
                 (map snd (filter fst (zip vis (get_xyz pc))))"
proof -
  let ?c = "camera_center cam"
  obtain vx centered where vx: "masked_select vis (get_xyz pc) = Inr vx"
    and ce: "tensor_sub_row vx ?c = Inr centered"
    and d: "dirs = map (\<lambda>v. map (\<lambda>x. x / vector_norm v) v) centered"
    using assms(1) by (auto simp: view_directions_of_def bindE_Inr_iff)
  have vx': "vx = map snd (filter fst (zip vis (get_xyz pc)))"
    by (rule masked_select_Inr(2) [OF vx])
  have "p \<in> set (get_xyz pc)" if "p \<in> set vx" for p
    using that unfolding vx' by (auto dest: set_zip_rightD)
  then have "tensor_sub_row vx ?c = Inr (map (\<lambda>p. map2 (-) p ?c) vx)"
    using assms(2) by (intro tensor_sub_row_regular) blast
  then have "centered = map (\<lambda>p. map2 (-) p ?c) vx" using ce by simp
  then show ?thesis unfolding d vx' by (simp add: vector_norm_def comp_def)
qed

lemma base_rgb_of_Inr:
  assumes "base_rgb_of ext pc vis dirs = Inr base"
  shows "base = map (map (\<lambda>x. x + 1 / 2))
                  (spherical_harmonics ext (active_sh_degree pc) dirs
                     (map snd (filter fst (zip vis (get_features pc)))))"
proof -
  obtain vf where vf: "masked_select vis (get_features pc) = Inr vf"
    and b: "base = map (map (\<lambda>x. x + 1 / 2))
                     (spherical_harmonics ext (active_sh_degree pc) dirs vf)"
    using assms by (auto simp: base_rgb_of_def bindE_Inr_iff)
  show ?thesis unfolding b masked_select_Inr(2) [OF vf] ..
qed

lemma rgb_offset_of_Inr:
  assumes "rgb_offset_of self cam pc vis dirs = Inr off"
  shows "\<exists>m model_out.
           model self = Some m \<and>
           Model_forward m (map snd (filter fst (zip vis (get_appearance_features pc))))
             (appearance_id cam) dirs = Inr model_out \<and>
           off = map (map (\<lambda>x. x * 2 - 1)) model_out"
proof -
  obtain m va where m: "get_model self = Inr m"
    and va: "masked_select vis (get_appearance_features pc) = Inr va"
    and p: "predict m va (appearance_id cam) dirs = Inr off"
    using assms by (auto simp: rgb_offset_of_def bindE_Inr_iff)
  have "model self = Some m"
    using m by (auto simp: get_model_def split: option.splits)
  moreover obtain model_out where "Model_forward m va (appearance_id cam) dirs = Inr model_out"
    and "off = map (map (\<lambda>x. x * 2 - 1)) model_out"
    using p by (auto simp: predict_def bindE_Inr_iff)
  ultimately show ?thesis unfolding masked_select_Inr(2) [OF va] by blast
qed

lemma shade_rgb_visible:
  assumes ma: "masked_assign vis buf 3 (map (map (\<lambda>x. clamp x 0 1)) composed) = Inr rgbs"
    and add: "tensor_add base off = Inr composed"
    and shape: "length base = length (filter id vis)" "length off = length (filter id vis)"
      "\<forall>r \<in> set base. length r = 3" "\<forall>r \<in> set off. length r = 3"
  shows "map snd (filter fst (zip vis rgbs))
           = map2 (map2 (\<lambda>b d. min (max (b + d) 0) 1)) base off"
proof -
  let ?K = "length (filter id vis)"
  have "tensor_add base off = Inr (map2 (map2 (+)) base off)"
    using shape by (intro tensor_add_regular [of _ ?K _ 3]) simp_all
  then have c: "composed = map2 (map2 (+)) base off" using add by simp
  let ?v = "map (map (\<lambda>x. clamp x 0 1)) composed"
  have lv: "length ?v = ?K" using shape(1,2) by (simp add: c)
  have rv: "length r = 3" if mem: "r \<in> set ?v" for r
  proof -
    have "r \<in> (\<lambda>(x, y). map (\<lambda>x. clamp x 0 1) (map2 (+) x y)) ` set (zip base off)"
      using mem unfolding c by (simp add: image_iff case_prod_beta comp_def)
    then obtain x y where "(x, y) \<in> set (zip base off)"
      and r: "r = map (\<lambda>x. clamp x 0 1) (map2 (+) x y)"
      by auto
    then have "length x = 3" "length y = 3"
      using shape(3,4) by (auto dest: set_zip_leftD set_zip_rightD)
    then show ?thesis by (simp add: r)
  qed
  have e: "expand_rows ?K 3 ?v = Inr ?v"
    by (rule expand_rows_same [OF lv rv])
  obtain rows where "expand_rows ?K 3 ?v = Inr rows" and sel: "masked_select vis rgbs = Inr rows"
    using masked_assign_Inr(2) [OF ma] by blast
  then have "rows = ?v" using e by simp
  then have "map snd (filter fst (zip vis rgbs)) = ?v"
    using masked_select_Inr(2) [OF sel] by simp
  also have "?v = map2 (map2 (\<lambda>b d. clamp (b + d) 0 1)) base off"
    unfolding c by (rule map_map_map2)
  finally show ?thesis by (simp add: clamp_def)
qed


text \<open>
  C2. When \<^verbatim>\<open>forward\<close> renders the \<^verbatim>\<open>rgb\<close> channel, the colours handed to its rasterization
  call have one row of three entries per point, every entry in \<open>[0, 1]\<close>, and the row of a
  point with screen radius \<open>\<le> 0\<close> is the zero row it was initialized with. The rows of the
  visible points come from \<open>base\<close>, the spherical harmonics of the visible points at their
  view directions plus \<open>0.5\<close>, and \<open>off\<close>, twice the output of \<^verbatim>\<open>Model.forward\<close> on the visible
  points' appearance features minus \<open>1\<close>: when both have one row of three entries per
  visible point, the visible rows are \<open>min(max(base + off, 0), 1)\<close>, entry by entry. The
  view directions are the normalized differences of the visible positions and the camera
  centre.
\<close>

theorem rgb_colors_clamped:
  assumes "forward ext self cam pc bg sm rts = Inr (out, calls)"
    and "''rgb'' \<in> set (requested rts)"
  defines "pr \<equiv> fst (preprocess ext self pc cam sm)"
  defines "vis \<equiv> map (\<lambda>r. 0 < r) (radii pr)"
  shows "\<exists>args rest m dirs model_out base off.
           calls = Call_project # Call_spherical_harmonics # Call_model # Call_rasterize args # rest \<and>
           render out = Some (rasterize_simplified ext args) \<and>
           length (colors args) = length (radii pr) \<and>
           (\<forall>row \<in> set (colors args). length row = 3 \<and> (\<forall>x \<in> set row. 0 \<le> x \<and> x \<le> 1)) \<and>
           (\<forall>i < length (radii pr). radii pr ! i \<le> 0 \<longrightarrow> colors args ! i = [0, 0, 0]) \<and>
           view_directions_of cam pc vis = Inr dirs \<and>
           ((\<forall>p \<in> set (get_xyz pc). length p = length (camera_center cam)) \<longrightarrow>
              dirs = map (\<lambda>p. map (\<lambda>x. x / sqrt (sum_list (map (\<lambda>y. y * y)
                                              (map2 (-) p (camera_center cam)))))
                                   (map2 (-) p (camera_center cam)))
                          (map snd (filter fst (zip vis (get_xyz pc))))) \<and>
           base = map (map (\<lambda>x. x + 1 / 2))
                    (spherical_harmonics ext (active_sh_degree pc) dirs
                       (map snd (filter fst (zip vis (get_features pc))))) \<and>
           model self = Some m \<and>
           Model_forward m (map snd (filter fst (zip vis (get_appearance_features pc))))
             (appearance_id cam) dirs = Inr model_out \<and>
           off = map (map (\<lambda>x. x * 2 - 1)) model_out \<and>
           (length base = length (filter id vis) \<and> length off = length (filter id vis) \<and>
            (\<forall>r \<in> set base. length r = 3) \<and> (\<forall>r \<in> set off. length r = 3) \<longrightarrow>
              map snd (filter fst (zip vis (colors args)))
                = map2 (map2 (\<lambda>b d. min (max (b + d) 0) 1)) base off)"
proof -
  obtain op0 where pp: "preprocess ext self pc cam sm = (pr, op0)"
    unfolding pr_def by (cases "preprocess ext self pc cam sm") simp
  obtain op' rgbs where sh: "shade_rgb ext self cam pc pr vis = Inr rgbs"
    and out: "render out = Some (rasterize_simplified ext (rgb_args pr cam rgbs bg op'))"
    and calls: "\<exists>rest. calls = Call_project # Call_spherical_harmonics # Call_model #
                  Call_rasterize (rgb_args pr cam rgbs bg op') # rest"
    using forward_returns [OF assms(1) pp] assms(2) unfolding vis_def by auto
  let ?a = "rgb_args pr cam rgbs bg op'"
  have col: "colors ?a = rgbs" by (simp add: rgb_args_def)
  obtain dirs base off composed where
    vd: "view_directions_of cam pc vis = Inr dirs"
    and b: "base_rgb_of ext pc vis dirs = Inr base"
    and o: "rgb_offset_of self cam pc vis dirs = Inr off"
    and add: "tensor_add base off = Inr composed"
    and ma: "masked_assign vis (replicate (length (radii pr)) (replicate 3 0)) 3
               (map (map (\<lambda>x. clamp x 0 1)) composed) = Inr rgbs"
    using shade_rgb_Inr [OF sh] by blast
  obtain m model_out where m: "model self = Some m"
    and mo: "Model_forward m (map snd (filter fst (zip vis (get_appearance_features pc))))
               (appearance_id cam) dirs = Inr model_out"
    and off: "off = map (map (\<lambda>x. x * 2 - 1)) model_out"
    using rgb_offset_of_Inr [OF o] by blast
  note base = base_rgb_of_Inr [OF b]
  have sh': "shade_rgb ext self cam pc pr (map (\<lambda>r. 0 < r) (radii pr)) = Inr rgbs"
    using sh unfolding vis_def .
  have c1: "length (colors ?a) = length (radii pr)"
    using shade_rgb_colors(1) [OF sh'] by (simp only: col)
  have c2: "\<forall>row \<in> set (colors ?a). length row = 3 \<and> (\<forall>x \<in> set row. 0 \<le> x \<and> x \<le> 1)"
    using shade_rgb_colors(2) [OF sh'] by (simp only: col) blast
  have c3: "\<forall>i < length (radii pr). radii pr ! i \<le> 0 \<longrightarrow> colors ?a ! i = [0, 0, 0]"
    using shade_rgb_colors(3) [OF sh'] by (simp only: col) blast
  have c4: "(\<forall>p \<in> set (get_xyz pc). length p = length (camera_center cam)) \<longrightarrow>
              dirs = map (\<lambda>p. map (\<lambda>x. x / sqrt (sum_list (map (\<lambda>y. y * y)
                                              (map2 (-) p (camera_center cam)))))
                                   (map2 (-) p (camera_center cam)))
                          (map snd (filter fst (zip vis (get_xyz pc))))"
    using view_directions_of_Inr [OF vd] by blast
  have c5: "length base = length (filter id vis) \<and> length off = length (filter id vis) \<and>
            (\<forall>r \<in> set base. length r = 3) \<and> (\<forall>r \<in> set off. length r = 3) \<longrightarrow>
              map snd (filter fst (zip vis (colors ?a)))
                = map2 (map2 (\<lambda>b d. min (max (b + d) 0) 1)) base off"
    using shade_rgb_visible [OF ma add] by (simp only: col) blast
  from calls obtain rest where calls':
    "calls = Call_project # Call_spherical_harmonics # Call_model # Call_rasterize ?a # rest" ..
  show ?thesis
    by (intro exI [of _ ?a] exI [of _ rest] exI [of _ m] exI [of _ dirs] exI [of _ model_out]
        exI [of _ base] exI [of _ off] conjI calls' out c1 c2 c3 vd c4 base m mo off c5)
qed

lemma example_biased_preprocess:
  "preprocess example_externals example_biased_module example_pc example_camera 1
     = (example_projection, [1 / 2, 1 / 4])"
  by (simp add: preprocess_def example_externals_def example_biased_module_def example_module_def
      example_pc_def)

lemma example_biased_forward_model:
  "Model_forward example_biased_model [[0, 0]] [1] [[0, 0, 1]] = Inr [[1 / 2, 1 / 2, 1 / 3]]"
  by (simp add: Model_forward_def example_biased_model_def example_model_def
      embedding_lookup_def example_model_config_def ModelConfig_def network_forward_def
      network_row_def dot_def sigmoid_def exp_minus)

lemma example_biased_shade:
  "shade_rgb example_externals example_biased_module example_camera example_pc example_projection
     [True, False] = Inr [[1, 0, 11 / 30], [0, 0, 0]]"
  by (simp add: shade_rgb_def view_directions_of_def base_rgb_of_def rgb_offset_of_def
      masked_select_def tensor_sub_row_def bcast_def vector_norm_def example_pc_def
      example_camera_def example_externals_def example_biased_module_def example_module_def
      get_model_def predict_def example_biased_forward_model
      tensor_add_def masked_assign_def expand_rows_def expand_to_def clamp_def
      example_projection_def numeral_3_eq_3)

lemma example_biased_forward:
  "forward example_externals example_biased_module example_camera example_pc [0, 0, 0] 1
     (Some [''rgb''])
   = Inr (\<lparr> render = Some (rgb_args example_projection example_camera
                             [[1, 0, 11 / 30], [0, 0, 0]] [0, 0, 0] [1 / 4, 1 / 4]),
            inverse_depth = None, hard_inverse_depth = None,
            viewspace_points = [[0, 0], [1, 1]], viewspace_points_grad_scale = [[2, 1]],
            visibility_filter = [True, False], out_radii = [3, 0] \<rparr>,
          [Call_project, Call_spherical_harmonics, Call_model,
           Call_rasterize (rgb_args example_projection example_camera
                             [[1, 0, 11 / 30], [0, 0, 0]] [0, 0, 0] [1 / 4, 1 / 4])])"
proof -
  have r: "radii example_projection = [3, 0]" "comp example_projection = [1 / 2, 1]"
    "xys example_projection = [[0, 0], [1, 1]]"
    by (simp_all add: example_projection_def)
  have c: "compensate example_biased_module [1 / 2, 1 / 4] [1 / 2, 1] = Inr [1 / 4, 1 / 4]"
    by (simp add: compensate_def example_biased_module_def example_module_def bcast_def)
  have g: "get_renderer example_biased_module = Inr GSPlatRenderer"
    by (simp add: get_renderer_def example_biased_module_def example_module_def)
  have e: "rasterize_simplified example_externals = (\<lambda>args. args)"
    by (simp add: example_externals_def)
  have w: "width example_camera = 4" "height example_camera = 2"
    by (simp_all add: example_camera_def)
  show ?thesis
    by (simp add: forward_def Let_def requested_def example_biased_preprocess r c g e w
        example_biased_shade)
qed

text \<open>
  The example scene with the biased model. The visible point has \<open>base = [3/2, -1/2, 7/10]\<close>
  and \<open>off = [0, 0, -1/3]\<close>, and reaches the rasterizer as \<open>[1, 0, 11/30]\<close>: the first two
  entries are clamped, the third is the sum; the second point, of radius \<open>0\<close>, is
  \<open>[0, 0, 0]\<close>.
\<close>

theorem rgb_colors_clamped_witness:
  "forward example_externals example_biased_module example_camera example_pc [0, 0, 0] 1
     (Some [''rgb''])
     = Inr (\<lparr> render = Some (rgb_args example_projection example_camera
                               [[1, 0, 11 / 30], [0, 0, 0]] [0, 0, 0] [1 / 4, 1 / 4]),
              inverse_depth = None, hard_inverse_depth = None,
              viewspace_points = [[0, 0], [1, 1]], viewspace_points_grad_scale = [[2, 1]],
              visibility_filter = [True, False], out_radii = [3, 0] \<rparr>,
            [Call_project, Call_spherical_harmonics, Call_model,
             Call_rasterize (rgb_args example_projection example_camera
                               [[1, 0, 11 / 30], [0, 0, 0]] [0, 0, 0] [1 / 4, 1 / 4])]) \<and>
   ''rgb'' \<in> set (requested (Some [''rgb''])) \<and>
   colors (rgb_args example_projection example_camera
             [[1, 0, 11 / 30], [0, 0, 0]] [0, 0, 0] [1 / 4, 1 / 4]) ! 1 = [0, 0, 0] \<and>
   map snd (filter fst (zip [True, False]
     (colors (rgb_args example_projection example_camera
                [[1, 0, 11 / 30], [0, 0, 0]] [0, 0, 0] [1 / 4, 1 / 4]))))
     = map2 (map2 (\<lambda>b d. min (max (b + d) 0) 1)) [[3 / 2, - 1 / 2, 7 / 10]] [[0, 0, - 1 / 3]]"
proof -
  let ?a = "rgb_args example_projection example_camera [[1, 0, 11 / 30], [0, 0, 0]] [0, 0, 0]
              [1 / 4, 1 / 4]"
  let ?out = "\<lparr> render = Some ?a, inverse_depth = None, hard_inverse_depth = None,
              viewspace_points = [[0, 0], [1, 1]], viewspace_points_grad_scale = [[2, 1]],
              visibility_filter = [True, False], out_radii = [3, 0] \<rparr>"
  let ?calls = "[Call_project, Call_spherical_harmonics, Call_model, Call_rasterize ?a]"
  have h1: "forward example_externals example_biased_module example_camera example_pc [0, 0, 0] 1
              (Some [''rgb'']) = Inr (?out, ?calls)"
    by (rule example_biased_forward)
  have h2: "''rgb'' \<in> set (requested (Some [''rgb'']))"
    by (simp add: requested_def)
  have r: "radii (fst (preprocess example_externals example_biased_module example_pc
                         example_camera 1)) = [3, 0]"
    by (simp add: example_biased_preprocess example_projection_def)
  have vis: "map (\<lambda>r. 0 < r) [3, 0 :: int] = [True, False]" by simp
  from rgb_colors_clamped [OF h1 h2]
  obtain args rest m dirs model_out base off where
    c: "?calls = Call_project # Call_spherical_harmonics # Call_model # Call_rasterize args # rest"
    and z: "\<forall>i < length [3, 0 :: int]. [3, 0 :: int] ! i \<le> 0 \<longrightarrow> colors args ! i = [0, 0, 0]"
    and vd: "view_directions_of example_camera example_pc [True, False] = Inr dirs"
    and base: "base = map (map (\<lambda>x. x + 1 / 2))
                    (spherical_harmonics example_externals (active_sh_degree example_pc) dirs
                       (map snd (filter fst (zip [True, False] (get_features example_pc)))))"
    and m: "model example_biased_module = Some m"
    and mo: "Model_forward m
               (map snd (filter fst (zip [True, False] (get_appearance_features example_pc))))
               (appearance_id example_camera) dirs = Inr model_out"
    and off: "off = map (map (\<lambda>x. x * 2 - 1)) model_out"
    and v: "length base = length (filter id [True, False]) \<and>
            length off = length (filter id [True, False]) \<and>
            (\<forall>r \<in> set base. length r = 3) \<and> (\<forall>r \<in> set off. length r = 3) \<longrightarrow>
              map snd (filter fst (zip [True, False] (colors args)))
                = map2 (map2 (\<lambda>b d. min (max (b + d) 0) 1)) base off"
    unfolding r vis by (elim exE conjE)
  from c have a: "args = ?a" by simp
  have d: "dirs = [[0, 0, 1]]"
    using vd by (simp add: view_directions_of_def masked_select_def tensor_sub_row_def bcast_def
        vector_norm_def example_pc_def example_camera_def)
  have b: "base = [[3 / 2, - 1 / 2, 7 / 10]]"
    unfolding base d by (simp add: example_externals_def)
  have "m = example_biased_model"
    using m by (simp add: example_biased_module_def)
  then have "model_out = [[1 / 2, 1 / 2, 1 / 3]]"
    using mo unfolding d
    by (simp add: example_pc_def example_camera_def example_biased_forward_model)
  then have f: "off = [[0, 0, - 1 / 3]]"
    unfolding off by simp
  have "map snd (filter fst (zip [True, False] (colors args)))
          = map2 (map2 (\<lambda>b d. min (max (b + d) 0) 1)) base off"
    by (rule v [THEN mp]) (simp add: b f)
  then have 1: "map snd (filter fst (zip [True, False] (colors ?a)))
          = map2 (map2 (\<lambda>b d. min (max (b + d) 0) 1)) [[3 / 2, - 1 / 2, 7 / 10]]
              [[0, 0, - 1 / 3]]"
    by (simp only: a b f)
  from z have "colors args ! 1 = [0, 0, 0]" by simp
  then have 2: "colors ?a ! 1 = [0, 0, 0]" by (simp only: a)
  from h1 h2 2 1 show ?thesis by (intro conjI)
qed

subsection \<open>The learning-rate schedule\<close>

lemma float_pow_zero_exp: "float_pow b 0 = Inr (PyFloat 1)"
  by (simp add: float_pow_def)

lemma float_pow_one_exp: "float_pow b 1 = Inr (PyFloat b)"
  by (simp add: float_pow_def)

lemma float_pow_unit_interval:
  assumes "0 \<le> b" "b \<le> 1" "0 \<le> x" "x \<le> y"
  shows "\<exists>p q. float_pow b x = Inr (PyFloat p) \<and> float_pow b y = Inr (PyFloat q) \<and> q \<le> p"
proof (cases "b = 0")
  case True
  then show ?thesis using assms by (auto simp: float_pow_def)
next
  case False
  then have b: "0 < b" using assms by simp
  have m: "b powr y \<le> b powr x" using assms b by (intro powr_mono') auto
  have l1: "b powr y \<le> 1" using assms b by (simp add: powr_le_one_le powr_le1)
  show ?thesis
  proof (cases "x = 0")
    case True
    then show ?thesis using b l1 assms by (auto simp: float_pow_def)
  next
    case False
    then have "y \<noteq> 0" using assms by auto
    then show ?thesis using b m False by (auto simp: float_pow_def)
  qed
qed

lemma lr_exponent_mono:
  fixes t t' w ms :: int
  assumes "0 < ms" "t \<le> t'"
  shows "min (real_of_int (max (t - w) 0) / real_of_int ms) 1
         \<le> min (real_of_int (max (t' - w) 0) / real_of_int ms) 1"
proof -
  have "real_of_int (max (t - w) 0) \<le> real_of_int (max (t' - w) 0)" using assms by simp
  then have "real_of_int (max (t - w) 0) / real_of_int ms \<le> real_of_int (max (t' - w) 0) / real_of_int ms"
    using assms by (simp add: divide_right_mono)
  then show ?thesis by (simp add: min_le_iff_disj)
qed

lemma lr_exponent_nonneg:
  fixes t w ms :: int
  assumes "0 < ms"
  shows "0 \<le> min (real_of_int (max (t - w) 0) / real_of_int ms) 1"
  using assms by simp

lemma lr_exponent_late:
  fixes t w ms :: int
  assumes "0 < ms" "w + ms \<le> t"
  shows "min (real_of_int (max (t - w) 0) / real_of_int ms) 1 = 1"
proof -
  have "ms \<le> max (t - w) 0" using assms by simp
  then have "real_of_int ms \<le> real_of_int (max (t - w) 0)" by linarith
  then have "1 \<le> real_of_int (max (t - w) 0) / real_of_int ms" using assms by (simp add: le_divide_eq)
  then show ?thesis by (rule min_absorb2)
qed

lemma create_optimizer_and_scheduler_Inr:
  assumes "create_optimizer_and_scheduler params name lr f ms e w = Inr (opt, sched)"
  shows "sched = \<lparr> sched_lr_lambda = lr_lambda f ms w \<rparr>" and "ms \<noteq> 0"
    and "0 \<le> lr" and "0 \<le> e"
    and "opt = \<lparr> opt_params = params, opt_name = name, opt_lr = lr, opt_eps = e \<rparr>"
proof -
  have ok: "\<not> (lr < 0 \<or> e < 0)"
    using assms by (auto simp: create_optimizer_and_scheduler_def)
  then show "0 \<le> lr" "0 \<le> e" by simp_all
  obtain y where y: "lr_lambda f ms w 0 = Inr y"
    and r: "(opt, sched) = (\<lparr> opt_params = params, opt_name = name, opt_lr = lr, opt_eps = e \<rparr>,
                            \<lparr> sched_lr_lambda = lr_lambda f ms w \<rparr>)"
    using assms ok by (auto simp: create_optimizer_and_scheduler_def Let_def bindE_Inr_iff)
  show "sched = \<lparr> sched_lr_lambda = lr_lambda f ms w \<rparr>"
    and "opt = \<lparr> opt_params = params, opt_name = name, opt_lr = lr, opt_eps = e \<rparr>"
    using r by simp_all
  show "ms \<noteq> 0" using y by (auto simp: lr_lambda_def)
qed

lemma training_setup_Inr:
  assumes "training_setup self = Inr (optimizers, schedulers)"
  shows "schedulers =
           [\<lparr> sched_lr_lambda = lr_lambda (lr_final_factor (optimization_config self))
                  (max_steps (optimization_config self)) (warm_up (optimization_config self)) \<rparr>,
            \<lparr> sched_lr_lambda = lr_lambda (lr_final_factor (optimization_config self))
                  (max_steps (optimization_config self)) (warm_up (optimization_config self)) \<rparr>]"
    and "max_steps (optimization_config self) \<noteq> 0"
    and "map opt_name optimizers = [''embedding'', ''embedding_network'']"
    and "map opt_lr optimizers = [embedding_lr_init (optimization_config self),
                                  lr_init (optimization_config self)]"
proof -
  let ?oc = "optimization_config self"
  have "\<exists>(m :: model) o1 s1 o2 s2.
      create_optimizer_and_scheduler (Embedding_parameters (embedding m)) ''embedding''
          (embedding_lr_init ?oc) (lr_final_factor ?oc) (max_steps ?oc) (eps ?oc) (warm_up ?oc)
        = Inr (o1, s1) \<and>
      create_optimizer_and_scheduler (Network_parameters (network m)) ''embedding_network''
          (lr_init ?oc) (lr_final_factor ?oc) (max_steps ?oc) (eps ?oc) (warm_up ?oc)
        = Inr (o2, s2) \<and>
      optimizers = [o1, o2] \<and> schedulers = [s1, s2]"
    using assms by (auto simp: training_setup_def Let_def bindE_Inr_iff)
  then obtain m :: model and o1 s1 o2 s2 where
    1: "create_optimizer_and_scheduler (Embedding_parameters (embedding m)) ''embedding''
          (embedding_lr_init ?oc) (lr_final_factor ?oc) (max_steps ?oc) (eps ?oc) (warm_up ?oc)
        = Inr (o1, s1)"
    and 2: "create_optimizer_and_scheduler (Network_parameters (network m)) ''embedding_network''
          (lr_init ?oc) (lr_final_factor ?oc) (max_steps ?oc) (eps ?oc) (warm_up ?oc)
        = Inr (o2, s2)"
    and r: "optimizers = [o1, o2]" "schedulers = [s1, s2]"
    by (elim exE conjE)
  note a = create_optimizer_and_scheduler_Inr [OF 1]
  note b = create_optimizer_and_scheduler_Inr [OF 2]
  show "schedulers =
           [\<lparr> sched_lr_lambda = lr_lambda (lr_final_factor ?oc) (max_steps ?oc) (warm_up ?oc) \<rparr>,
            \<lparr> sched_lr_lambda = lr_lambda (lr_final_factor ?oc) (max_steps ?oc) (warm_up ?oc) \<rparr>]"
    by (simp add: r a(1) b(1))
  show "max_steps ?oc \<noteq> 0" by (rule a(2))
  show "map opt_name optimizers = [''embedding'', ''embedding_network'']"
    by (simp add: r a(5) b(5))
  show "map opt_lr optimizers = [embedding_lr_init ?oc, lr_init ?oc]"
    by (simp add: r a(5) b(5))
qed

text \<open>
  \<^verbatim>\<open>training_setup\<close> returns when the module has its model, Adam accepts the two rates and
  the epsilon, and the lambda does not raise at step \<open>0\<close>.
\<close>

lemma training_setup_returns:
  assumes "model self = Some m"
    and "0 \<le> embedding_lr_init (optimization_config self)"
    and "0 \<le> lr_init (optimization_config self)"
    and "0 \<le> eps (optimization_config self)"
    and "lr_lambda (lr_final_factor (optimization_config self))
           (max_steps (optimization_config self)) (warm_up (optimization_config self)) 0 = Inr y"
  shows "\<exists>optimizers schedulers. training_setup self = Inr (optimizers, schedulers)"
  using assms
  by (simp add: training_setup_def get_model_def create_optimizer_and_scheduler_def Let_def
      not_less [symmetric])


lemma lr_multipliers_example:
  assumes "lr_lambda f ms w 0 = Inr y"
  shows "lr_multipliers (example_schedule f ms w) t = Inr [lr_lambda f ms w t, lr_lambda f ms w t]"
  using assms
  by (simp add: lr_multipliers_def training_setup_def get_model_def example_schedule_def
      example_module_def create_optimizer_and_scheduler_def OptimizationConfig_def Let_def)

text \<open>
  C3, as stated, does not hold for every configuration \<^verbatim>\<open>training_setup\<close> accepts. In each of
  the following, both optimizers and schedulers are built.
  \<^item> With \<open>lr_final_factor = 2\<close>, \<open>max_steps = 1\<close>, \<open>warm_up = 0\<close> the multiplier grows from \<open>1\<close>
    at step \<open>0\<close> to \<open>2\<close> at step \<open>1\<close>: it is not non-increasing.
  \<^item> With \<open>lr_final_factor = -1\<close>, \<open>max_steps = 2\<close>, \<open>warm_up = 0\<close> the multiplier at step \<open>1\<close>
    is Python's complex number \<open>(-1.0) ** 0.5\<close>, which has no place in an order.
  \<^item> With \<open>lr_final_factor = 1/10\<close>, \<open>max_steps = -1\<close>, \<open>warm_up = 4000\<close> the multiplier at step
    \<open>3999 = warm_up + max_steps\<close> is \<open>1\<close>, not the factor, and it grows from \<open>1\<close> at step
    \<open>4000\<close> to \<open>10\<close> at step \<open>4001\<close>.
\<close>

theorem lr_schedule_counterexample:
  "lr_multipliers (example_schedule 2 1 0) 0 = Inr [Inr (PyFloat 1), Inr (PyFloat 1)] \<and>
   lr_multipliers (example_schedule 2 1 0) 1 = Inr [Inr (PyFloat 2), Inr (PyFloat 2)] \<and>
   lr_multipliers (example_schedule (- 1) 2 0) 1
     = Inr [Inr (PyComplex \<i>), Inr (PyComplex \<i>)] \<and>
   lr_multipliers (example_schedule (1 / 10) (- 1) 4000) 3999
     = Inr [Inr (PyFloat 1), Inr (PyFloat 1)] \<and>
   lr_multipliers (example_schedule (1 / 10) (- 1) 4000) 4000
     = Inr [Inr (PyFloat 1), Inr (PyFloat 1)] \<and>
   lr_multipliers (example_schedule (1 / 10) (- 1) 4000) 4001
     = Inr [Inr (PyFloat 10), Inr (PyFloat 10)]"
proof -
  have a: "lr_lambda 2 1 0 0 = Inr (PyFloat 1)" "lr_lambda 2 1 0 1 = Inr (PyFloat 2)"
    by (simp_all add: lr_lambda_def float_pow_def)
  have b: "lr_lambda (- 1) 2 0 0 = Inr (PyFloat 1)" "lr_lambda (- 1) 2 0 1 = Inr (PyComplex \<i>)"
    by (simp_all add: lr_lambda_def float_pow_def complex_eq_iff cos_pi_half sin_pi_half)
  have c: "lr_lambda (1 / 10) (- 1) 4000 0 = Inr (PyFloat 1)"
    "lr_lambda (1 / 10) (- 1) 4000 3999 = Inr (PyFloat 1)"
    "lr_lambda (1 / 10) (- 1) 4000 4000 = Inr (PyFloat 1)"
    "lr_lambda (1 / 10) (- 1) 4000 4001 = Inr (PyFloat 10)"
    by (simp_all add: lr_lambda_def float_pow_def powr_minus)
  show ?thesis
    by (simp add: lr_multipliers_example [OF a(1)] lr_multipliers_example [OF b(1)]
        lr_multipliers_example [OF c(1)] a b c)
qed

text \<open>
  C3, amended. When \<^verbatim>\<open>training_setup\<close> builds its optimizers (it raises when Adam rejects a
  rate or the epsilon, and when the lambda raises at step \<open>0\<close>, as it does for
  \<open>max_steps = 0\<close>), it builds two, and for both schedulers:
  \<^item> the multiplier at step \<open>t\<close> is \<open>lr_final_factor ** min(max(t - warm_up, 0) / max_steps, 1)\<close>
    (Python's power; the real power \<open>powr\<close> when the factor is positive);
  \<^item> it is \<open>1\<close> for every \<open>t \<le> warm_up\<close>;
  \<^item> if \<open>max_steps > 0\<close>, it is \<open>lr_final_factor\<close> for every \<open>t \<ge> warm_up + max_steps\<close>;
  \<^item> if \<open>max_steps > 0\<close> and \<open>0 \<le> lr_final_factor \<le> 1\<close>, it is non-increasing in \<open>t\<close> from
    \<open>warm_up\<close> on.
  Both schedulers use \<open>lr_final_factor\<close>; \<open>embedding_lr_final_factor\<close> is not read.
\<close>

theorem lr_schedule:
  fixes self :: renderer_module
  defines "f \<equiv> lr_final_factor (optimization_config self)"
    and "ms \<equiv> max_steps (optimization_config self)"
    and "w \<equiv> warm_up (optimization_config self)"
  assumes "training_setup self = Inr (optimizers, schedulers)"
  shows "length optimizers = 2 \<and> length schedulers = 2 \<and>
         (\<forall>s \<in> set schedulers.
            (\<forall>t. sched_lr_lambda s t =
                   float_pow f (min (real_of_int (max (t - w) 0) / real_of_int ms) 1)) \<and>
            (\<forall>t. 0 < f \<longrightarrow> sched_lr_lambda s t =
                   Inr (PyFloat (f powr min (real_of_int (max (t - w) 0) / real_of_int ms) 1))) \<and>
            (\<forall>t. t \<le> w \<longrightarrow> sched_lr_lambda s t = Inr (PyFloat 1)) \<and>
            (0 < ms \<longrightarrow> (\<forall>t. w + ms \<le> t \<longrightarrow> sched_lr_lambda s t = Inr (PyFloat f))) \<and>
            (0 < ms \<and> 0 \<le> f \<and> f \<le> 1 \<longrightarrow>
               (\<forall>t t'. w \<le> t \<and> t \<le> t' \<longrightarrow>
                  (\<exists>p q. sched_lr_lambda s t = Inr (PyFloat p) \<and>
                         sched_lr_lambda s t' = Inr (PyFloat q) \<and> q \<le> p))))"
proof -
  let ?e = "\<lambda>t. min (real_of_int (max (t - w) 0) / real_of_int ms) 1"
  let ?s = "\<lparr> sched_lr_lambda = lr_lambda f ms w \<rparr>"
  note ts = training_setup_Inr [OF assms(4)]
  have scheds: "schedulers = [?s, ?s]"
    using ts(1) unfolding f_def ms_def w_def .
  have ms0: "ms \<noteq> 0" using ts(2) unfolding ms_def .
  have "length (map opt_name optimizers) = 2" unfolding ts(3) by simp
  then have lo: "length optimizers = 2" by simp
  have formula: "lr_lambda f ms w t = float_pow f (?e t)" for t
    using ms0 by (simp add: lr_lambda_def)
  have pos: "lr_lambda f ms w t = Inr (PyFloat (f powr ?e t))" if "0 < f" for t
  proof (cases "?e t = 0")
    case True
    then show ?thesis using that unfolding formula by (simp add: float_pow_def)
  next
    case False
    then show ?thesis using that unfolding formula by (simp add: float_pow_def)
  qed
  have early: "lr_lambda f ms w t = Inr (PyFloat 1)" if "t \<le> w" for t
  proof -
    have "?e t = 0" using that by simp
    then show ?thesis unfolding formula by (simp add: float_pow_zero_exp)
  qed
  have late: "lr_lambda f ms w t = Inr (PyFloat f)" if "0 < ms" "w + ms \<le> t" for t
    unfolding formula lr_exponent_late [OF that] by (rule float_pow_one_exp)
  have mono: "\<exists>p q. lr_lambda f ms w t = Inr (PyFloat p) \<and> lr_lambda f ms w t' = Inr (PyFloat q) \<and> q \<le> p"
    if "0 < ms" "0 \<le> f" "f \<le> 1" "t \<le> t'" for t t'
    unfolding formula
    using float_pow_unit_interval [OF that(2) that(3) lr_exponent_nonneg [OF that(1)]
        lr_exponent_mono [OF that(1) that(4)]] .
  have sel: "sched_lr_lambda ?s = lr_lambda f ms w" by simp
  have props:
    "(\<forall>t. sched_lr_lambda ?s t = float_pow f (?e t)) \<and>
     (\<forall>t. 0 < f \<longrightarrow> sched_lr_lambda ?s t = Inr (PyFloat (f powr ?e t))) \<and>
     (\<forall>t. t \<le> w \<longrightarrow> sched_lr_lambda ?s t = Inr (PyFloat 1)) \<and>
     (0 < ms \<longrightarrow> (\<forall>t. w + ms \<le> t \<longrightarrow> sched_lr_lambda ?s t = Inr (PyFloat f))) \<and>
     (0 < ms \<and> 0 \<le> f \<and> f \<le> 1 \<longrightarrow>
        (\<forall>t t'. w \<le> t \<and> t \<le> t' \<longrightarrow>
           (\<exists>p q. sched_lr_lambda ?s t = Inr (PyFloat p) \<and>
                  sched_lr_lambda ?s t' = Inr (PyFloat q) \<and> q \<le> p)))"
    unfolding sel using formula pos early late mono by blast
  have ls: "length schedulers = 2" by (simp add: scheds)
  have all: "\<forall>s \<in> set schedulers. s = ?s" by (simp add: scheds)
  show ?thesis
  proof (intro conjI ballI)
    show "length optimizers = 2" by (rule lo)
    show "length schedulers = 2" by (rule ls)
  next
    fix s assume "s \<in> set schedulers"
    then have s: "s = ?s" using all by blast
    show "\<forall>t. sched_lr_lambda s t = float_pow f (?e t)"
      "\<forall>t. 0 < f \<longrightarrow> sched_lr_lambda s t = Inr (PyFloat (f powr ?e t))"
      "\<forall>t. t \<le> w \<longrightarrow> sched_lr_lambda s t = Inr (PyFloat 1)"
      "0 < ms \<longrightarrow> (\<forall>t. w + ms \<le> t \<longrightarrow> sched_lr_lambda s t = Inr (PyFloat f))"
      "0 < ms \<and> 0 \<le> f \<and> f \<le> 1 \<longrightarrow>
        (\<forall>t t'. w \<le> t \<and> t \<le> t' \<longrightarrow>
           (\<exists>p q. sched_lr_lambda s t = Inr (PyFloat p) \<and>
                  sched_lr_lambda s t' = Inr (PyFloat q) \<and> q \<le> p))"
      using props unfolding s by blast+
  qed
qed


text \<open>
  The example module with the default \<open>OptimizationConfig\<close>: \<^verbatim>\<open>training_setup\<close> builds both
  pairs, and the schedule satisfies every hypothesis of C3.
\<close>

theorem lr_schedule_witness:
  "0 < max_steps (optimization_config example_module) \<and>
   0 \<le> lr_final_factor (optimization_config example_module) \<and>
   lr_final_factor (optimization_config example_module) \<le> 1 \<and>
   (\<exists>optimizers schedulers.
      training_setup example_module = Inr (optimizers, schedulers) \<and>
      length schedulers = 2 \<and>
      sched_lr_lambda (schedulers ! 0) 4000 = Inr (PyFloat 1) \<and>
      sched_lr_lambda (schedulers ! 1) 34000 = Inr (PyFloat (1 / 10)) \<and>
      (\<exists>p q. sched_lr_lambda (schedulers ! 0) 5000 = Inr (PyFloat p) \<and>
             sched_lr_lambda (schedulers ! 0) 6000 = Inr (PyFloat q) \<and> q \<le> p))"
proof -
  have v: "warm_up (optimization_config example_module) = 4000"
    "max_steps (optimization_config example_module) = 30000"
    "lr_final_factor (optimization_config example_module) = 1 / 10"
    by (simp_all add: example_module_def OptimizationConfig_def)
  have h: "0 < max_steps (optimization_config example_module)"
    "0 \<le> lr_final_factor (optimization_config example_module)"
    "lr_final_factor (optimization_config example_module) \<le> 1"
    by (simp_all add: v)
  have r: "model example_module = Some example_model"
    "0 \<le> embedding_lr_init (optimization_config example_module)"
    "0 \<le> lr_init (optimization_config example_module)"
    "0 \<le> eps (optimization_config example_module)"
    by (simp_all add: example_module_def OptimizationConfig_def)
  have z: "lr_lambda (lr_final_factor (optimization_config example_module))
             (max_steps (optimization_config example_module))
             (warm_up (optimization_config example_module)) 0 = Inr (PyFloat 1)"
    by (simp add: v lr_lambda_def float_pow_def)
  obtain optimizers schedulers where
    ts: "training_setup example_module = Inr (optimizers, schedulers)"
    using training_setup_returns [OF r z] by (elim exE)
  note t = lr_schedule [OF ts]
  have l: "length schedulers = 2" using t by (elim conjE)
  then have m: "schedulers ! 0 \<in> set schedulers" "schedulers ! 1 \<in> set schedulers"
    by simp_all
  note c0 = t [THEN conjunct2, THEN conjunct2, THEN bspec, OF m(1)]
  note c1 = t [THEN conjunct2, THEN conjunct2, THEN bspec, OF m(2)]
  note early = c0 [THEN conjunct2, THEN conjunct2, THEN conjunct1, rule_format]
  note late = c1 [THEN conjunct2, THEN conjunct2, THEN conjunct2, THEN conjunct1, THEN mp,
      OF h(1), rule_format]
  note mono = c0 [THEN conjunct2, THEN conjunct2, THEN conjunct2, THEN conjunct2, THEN mp,
      OF conjI [OF h(1) conjI [OF h(2) h(3)]], rule_format]
  have 1: "sched_lr_lambda (schedulers ! 0) 4000 = Inr (PyFloat 1)"
    by (rule early) (simp add: v)
  have "sched_lr_lambda (schedulers ! 1) 34000
          = Inr (PyFloat (lr_final_factor (optimization_config example_module)))"
    by (rule late) (simp add: v)
  then have 2: "sched_lr_lambda (schedulers ! 1) 34000 = Inr (PyFloat (1 / 10))"
    by (simp only: v)
  have 3: "\<exists>p q. sched_lr_lambda (schedulers ! 0) 5000 = Inr (PyFloat p) \<and>
             sched_lr_lambda (schedulers ! 0) 6000 = Inr (PyFloat q) \<and> q \<le> p"
    by (rule mono) (simp add: v)
  have "\<exists>optimizers schedulers.
      training_setup example_module = Inr (optimizers, schedulers) \<and>
      length schedulers = 2 \<and>
      sched_lr_lambda (schedulers ! 0) 4000 = Inr (PyFloat 1) \<and>
      sched_lr_lambda (schedulers ! 1) 34000 = Inr (PyFloat (1 / 10)) \<and>
      (\<exists>p q. sched_lr_lambda (schedulers ! 0) 5000 = Inr (PyFloat p) \<and>
             sched_lr_lambda (schedulers ! 0) 6000 = Inr (PyFloat q) \<and> q \<le> p)"
    using ts l 1 2 3 by (intro exI [of _ optimizers] exI [of _ schedulers] conjI)
  then show ?thesis by (rule conjI [OF h(1) conjI [OF h(2) conjI [OF h(3)]]])
qed

subsection \<open>The shading model\<close>

lemma reciprocal_unit: "1 < (y::real) \<Longrightarrow> 0 < 1 / y \<and> 1 / y < 1"
  by simp

lemma sigmoid_range: "0 < sigmoid x \<and> sigmoid x < 1"
proof -
  have "0 < exp (- x)" by simp
  then have "1 < 1 + exp (- x)" by linarith
  then show ?thesis unfolding sigmoid_def by (rule reciprocal_unit)
qed

lemma Model_Inr:
  assumes "Model ini cfg = Inr m"
  shows "config m = cfg"
    and "0 \<le> n_appearances cfg"
    and "length (embedding m) = nat (n_appearances cfg)"
    and "\<And>row. row \<in> set (embedding m) \<Longrightarrow> length row = n_appearance_embedding_dims cfg"
    and "view_direction_encoding m =
           (if is_view_dependent cfg
            then Some (PositionalEncoding ini 3 (n_view_direction_frequencies cfg)) else None)"
    and "net_n_input_dims (network m) =
           n_gaussian_feature_dims cfg + n_appearance_embedding_dims cfg +
           (if is_view_dependent cfg
            then get_output_n_channels (PositionalEncoding ini 3 (n_view_direction_frequencies cfg))
            else 0)"
    and "length (net_out_weight (network m)) = 3"
    and "length (net_out_bias (network m)) = 3"
    and "net_output_activation (network m) = Sigmoid"
  using assms
  by (auto simp: Model_def Let_def bindE_Inr_iff get_network_with_skip_layers_def
      split: if_splits)

lemma network_forward_rows:
  assumes "\<And>row. row \<in> set rows \<Longrightarrow> length row = net_n_input_dims net"
  shows "network_forward net rows =
           Inr (map (\<lambda>x. map2 (\<lambda>w b. apply_activation (net_output_activation net)
                                        (dot w (net_hidden net x) + b))
                            (net_out_weight net) (net_out_bias net)) rows)"
  unfolding network_forward_def
  by (rule collect_map_total) (simp add: network_row_def assms)

lemma l2_normalize_shape:
  "length (l2_normalize rows) = length rows"
  "i < length rows \<Longrightarrow> length (l2_normalize rows ! i) = length (rows ! i)"
  by (simp_all add: l2_normalize_def)

lemma embedding_lookup_single:
  assumes "0 \<le> a" "a < int (length weight)"
  shows "embedding_lookup weight [a] = Inr [weight ! nat a]"
  using assms by (simp add: embedding_lookup_def)

lemma map2_append_rows:
  assumes "\<And>r. r \<in> set A \<Longrightarrow> length r = p" and "\<And>r. r \<in> set B \<Longrightarrow> length r = q"
    and "r \<in> set (map2 (@) A B)"
  shows "length r = p + q"
proof -
  obtain x y where "(x, y) \<in> set (zip A B)" "r = x @ y"
    using assms(3) by auto
  then have "x \<in> set A" "y \<in> set B" "r = x @ y"
    by (auto dest: set_zip_leftD set_zip_rightD)
  then show ?thesis using assms(1,2) by simp
qed

lemma l2_normalize_rows:
  assumes "\<And>r. r \<in> set rows \<Longrightarrow> length r = p" and "r \<in> set (l2_normalize rows)"
  shows "length r = p"
  using assms by (auto simp: l2_normalize_def)

lemma Model_forward_input:
  assumes m: "Model ini cfg = Inr m"
    and gf: "\<And>row. row \<in> set gf \<Longrightarrow> length row = n_gaussian_feature_dims cfg"
    and a: "0 \<le> a" "a < n_appearances cfg"
    and vd: "is_view_dependent cfg \<Longrightarrow> length vd = length gf"
    and pe: "\<And>v. is_view_dependent cfg \<Longrightarrow> v \<in> set vd \<Longrightarrow>
               length (pe_forward (PositionalEncoding ini 3 (n_view_direction_frequencies cfg)) v)
               = get_output_n_channels (PositionalEncoding ini 3 (n_view_direction_frequencies cfg))"
  shows "\<exists>inp. Model_forward m gf [a] vd = network_forward (network m) inp \<and>
           length inp = length gf \<and>
           (\<forall>row \<in> set inp. length row = net_n_input_dims (network m))"
proof -
  note M = Model_Inr [OF m]
  let ?F = "n_gaussian_feature_dims cfg" and ?D = "n_appearance_embedding_dims cfg"
  let ?pe = "PositionalEncoding ini 3 (n_view_direction_frequencies cfg)"
  let ?e = "embedding m ! nat a"
  have a': "a < int (length (embedding m))" using a M(3) by simp
  have lk: "embedding_lookup (embedding m) [a] = Inr [?e]"
    by (rule embedding_lookup_single [OF a(1) a'])
  have "nat a < length (embedding m)" using a a' by simp
  then have eD: "length ?e = ?D" using M(4) by simp
  define ae where "ae = concat (replicate (length gf) [?e])"
  have ae: "ae = replicate (length gf) ?e"
    unfolding ae_def by (induction "length gf") (simp_all add: replicate_app_Cons_same)
  define A where "A = (if normalize cfg then l2_normalize gf else gf)"
  define B where "B = (if normalize cfg then l2_normalize ae else ae)"
  have lA: "length A = length gf" and lB: "length B = length gf"
    by (simp_all add: A_def B_def l2_normalize_shape(1) ae)
  have rA: "length r = ?F" if "r \<in> set A" for r
    using that gf l2_normalize_rows [of gf ?F r] by (auto simp: A_def split: if_splits)
  have rae: "length r = ?D" if "r \<in> set ae" for r
    using that eD by (auto simp: ae)
  have rB: "length r = ?D" if "r \<in> set B" for r
    using that rae l2_normalize_rows [of ae ?D r] by (auto simp: B_def split: if_splits)
  have rAB: "length r = ?F + ?D" if "r \<in> set (map2 (@) A B)" for r
    using map2_append_rows [OF rA rB that] .
  have step: "Model_forward m gf [a] vd =
      bindE (if is_view_dependent cfg
             then (case view_direction_encoding m of
                     None \<Rightarrow> Inl AttributeError
                   | Some pe \<Rightarrow> Inr ([A, B] @ [map (pe_forward pe) vd]))
             else Inr [A, B])
        (\<lambda>ts. bindE (concat_last ts) (network_forward (network m)))"
    unfolding A_def B_def ae_def Model_forward_def Let_def lk M(1) by simp
  show ?thesis
  proof (cases "is_view_dependent cfg")
    case False
    have "Model_forward m gf [a] vd = network_forward (network m) (map2 (@) A B)"
      using False by (simp add: step lA lB)
    moreover have "length (map2 (@) A B) = length gf" by (simp add: lA lB)
    moreover have "\<forall>row \<in> set (map2 (@) A B). length row = net_n_input_dims (network m)"
      using rAB False by (simp add: M(6))
    ultimately show ?thesis by blast
  next
    case True
    let ?C = "map (pe_forward ?pe) vd"
    have lC: "length ?C = length gf" using vd [OF True] by simp
    have rC: "length r = get_output_n_channels ?pe" if "r \<in> set ?C" for r
      using that pe [OF True] by auto
    have rBC: "length r = ?D + get_output_n_channels ?pe" if "r \<in> set (map2 (@) B ?C)" for r
      using map2_append_rows [OF rB rC that] .
    have rABC: "length r = ?F + (?D + get_output_n_channels ?pe)"
      if "r \<in> set (map2 (@) A (map2 (@) B ?C))" for r
      using map2_append_rows [OF rA rBC that] .
    have "Model_forward m gf [a] vd = network_forward (network m) (map2 (@) A (map2 (@) B ?C))"
      using True lC by (simp add: step M(5) lA lB)
    moreover have "length (map2 (@) A (map2 (@) B ?C)) = length gf" using lC by (simp add: lA lB)
    moreover have "\<forall>row \<in> set (map2 (@) A (map2 (@) B ?C)).
                     length row = net_n_input_dims (network m)"
      using rABC True by (simp add: M(6))
    ultimately show ?thesis by blast
  qed
qed

text \<open>
  C4. Let the shading model be constructed from a configuration (so the configuration is
  valid), and let it be called with \<open>N\<close> feature rows of the configured width, one
  appearance id of the table and, when the model is view dependent, \<open>N\<close> view directions
  that the encoder maps to the number of channels it announces. Then \<^verbatim>\<open>Model.forward\<close>
  returns \<open>N\<close> rows of three sigmoid values, and the prediction \<open>2 * x - 1\<close> the renderer
  makes of them is \<open>N\<close> rows of three values in \<open>[-1, 1]\<close>.
\<close>

theorem predict_shape_and_range:
  assumes "Model ini cfg = Inr m"
    and "\<forall>row \<in> set point_features. length row = n_gaussian_feature_dims cfg"
    and "0 \<le> a \<and> a < n_appearances cfg"
    and "is_view_dependent cfg \<longrightarrow>
           length view_directions = length point_features \<and>
           (\<forall>v \<in> set view_directions.
              length (pe_forward (PositionalEncoding ini 3 (n_view_direction_frequencies cfg)) v)
              = get_output_n_channels (PositionalEncoding ini 3 (n_view_direction_frequencies cfg)))"
  shows "\<exists>out offsets.
           Model_forward m point_features [a] view_directions = Inr out \<and>
           (\<forall>row \<in> set out. \<forall>x \<in> set row. 0 < x \<and> x < 1) \<and>
           predict m point_features [a] view_directions = Inr offsets \<and>
           offsets = map (map (\<lambda>x. x * 2 - 1)) out \<and>
           length offsets = length point_features \<and>
           (\<forall>row \<in> set offsets. length row = 3 \<and> (\<forall>x \<in> set row. - 1 \<le> x \<and> x \<le> 1))"
proof -
  note M = Model_Inr [OF assms(1)]
  obtain inp where f: "Model_forward m point_features [a] view_directions
                         = network_forward (network m) inp"
    and len: "length inp = length point_features"
    and rows: "\<forall>row \<in> set inp. length row = net_n_input_dims (network m)"
    using Model_forward_input [OF assms(1), of point_features a view_directions] assms(2,3,4)
    by blast
  let ?row = "\<lambda>x. map2 (\<lambda>w b. sigmoid (dot w (net_hidden (network m) x) + b))
                    (net_out_weight (network m)) (net_out_bias (network m))"
  let ?out = "map ?row inp"
  let ?off = "map (map (\<lambda>x. x * 2 - 1)) ?out"
  have nf: "network_forward (network m) inp = Inr ?out"
    using network_forward_rows [of inp "network m"] rows by (simp add: M(9))
  have out: "Model_forward m point_features [a] view_directions = Inr ?out"
    using f nf by simp
  have sig: "0 < x \<and> x < 1" if row: "row \<in> set ?out" and x: "x \<in> set row" for row x
  proof -
    obtain i where "row = ?row i" using row by auto
    then obtain w b where "x = sigmoid (dot w (net_hidden (network m) i) + b)"
      using x by auto
    then show ?thesis using sigmoid_range by simp
  qed
  have l3: "length row = 3" if "row \<in> set ?out" for row
    using that by (auto simp: M(7) M(8))
  have pr: "predict m point_features [a] view_directions = Inr ?off"
    by (simp add: predict_def out)
  have "length ?off = length point_features" by (simp add: len)
  moreover have "length row = 3 \<and> (\<forall>x \<in> set row. - 1 \<le> x \<and> x \<le> 1)"
    if row: "row \<in> set ?off" for row
  proof -
    have "row \<in> map (\<lambda>x. x * 2 - 1) ` set ?out" using row by (simp only: set_map)
    then obtain r where r: "r \<in> set ?out" "row = map (\<lambda>x. x * 2 - 1) r" by (rule imageE)
    have "- 1 \<le> x \<and> x \<le> 1" if x: "x \<in> set row" for x
    proof -
      obtain y where y: "y \<in> set r" "x = y * 2 - 1" using x r(2) by auto
      have "0 < y \<and> y < 1" by (rule sig [OF r(1) y(1)])
      then show ?thesis using y(2) by simp
    qed
    then show ?thesis using l3 [OF r(1)] r(2) by simp
  qed
  ultimately show ?thesis using out pr sig by blast
qed

text \<open>The example model, two feature rows and the appearance id \<open>1\<close>.\<close>

theorem predict_shape_and_range_witness:
  "Model example_initializers example_model_config = Inr example_model \<and>
   length [0, 0 :: real] = n_gaussian_feature_dims example_model_config \<and>
   length [1, 2 :: real] = n_gaussian_feature_dims example_model_config \<and>
   (0 \<le> (1 :: int) \<and> 1 < n_appearances example_model_config) \<and>
   \<not> is_view_dependent example_model_config \<and>
   (\<exists>offsets. predict example_model [[0, 0], [1, 2]] [1] [] = Inr offsets \<and>
      length offsets = 2 \<and> length (offsets ! 0) = 3 \<and> length (offsets ! 1) = 3)"
proof -
  have h1: "Model example_initializers example_model_config = Inr example_model"
    by (rule example_model_built)
  have h2: "\<forall>row \<in> set [[0, 0], [1, 2 :: real]].
              length row = n_gaussian_feature_dims example_model_config"
    by (simp add: example_model_config_def ModelConfig_def)
  have h3: "0 \<le> (1 :: int) \<and> 1 < n_appearances example_model_config"
    by (simp add: example_model_config_def ModelConfig_def)
  have h4: "is_view_dependent example_model_config \<longrightarrow>
           length ([] :: vec list) = length [[0, 0], [1, 2 :: real]] \<and>
           (\<forall>v \<in> set ([] :: vec list).
              length (pe_forward (PositionalEncoding example_initializers 3
                        (n_view_direction_frequencies example_model_config)) v)
              = get_output_n_channels (PositionalEncoding example_initializers 3
                        (n_view_direction_frequencies example_model_config)))"
    by (simp add: example_model_config_def ModelConfig_def)
  have g: "length [0, 0 :: real] = n_gaussian_feature_dims example_model_config"
    "length [1, 2 :: real] = n_gaussian_feature_dims example_model_config"
    "\<not> is_view_dependent example_model_config"
    by (simp_all add: example_model_config_def ModelConfig_def)
  from predict_shape_and_range [OF h1 h2 h3 h4]
  obtain offsets where p: "predict example_model [[0, 0], [1, 2]] [1] [] = Inr offsets"
    and l: "length offsets = length [[0, 0], [1, 2 :: real]]"
    and r: "\<forall>row \<in> set offsets. length row = 3 \<and> (\<forall>x \<in> set row. - 1 \<le> x \<and> x \<le> 1)"
    by (elim exE conjE)
  have "offsets ! 0 \<in> set offsets" "offsets ! 1 \<in> set offsets"
    using l by simp_all
  then have "length (offsets ! 0) = 3" "length (offsets ! 1) = 3"
    using r by blast+
  then have ex: "\<exists>offsets. predict example_model [[0, 0], [1, 2]] [1] [] = Inr offsets \<and>
      length offsets = 2 \<and> length (offsets ! 0) = 3 \<and> length (offsets ! 1) = 3"
    using p l by (intro exI [of _ offsets]) simp
  show ?thesis
    by (rule conjI [OF h1 conjI [OF g(1) conjI [OF g(2) conjI [OF h3 conjI [OF g(3) ex]]]]])
qed

subsection \<open>Anti-aliasing compensation\<close>

lemma compensate_Inr:
  assumes "compensate self op0 cs = Inr op'"
  shows "\<not> anti_aliased self \<Longrightarrow> op' = op0"
    and "anti_aliased self \<Longrightarrow> length op0 = length cs \<Longrightarrow> op' = map2 (*) op0 cs"
proof -
  show "op' = op0" if "\<not> anti_aliased self"
    using assms that by (simp add: compensate_def)
  show "op' = map2 (*) op0 cs" if "anti_aliased self" "length op0 = length cs"
  proof -
    have "collect (map2 (\<lambda>a c. Inr (a * c)) op0 cs) = Inr op'"
      using assms that by (simp add: compensate_def bcast_def)
    moreover have "collect (map2 (\<lambda>a c. Inr (a * c)) op0 cs) = Inr (map2 (*) op0 cs)"
      by (rule collect_map_total) auto
    ultimately show ?thesis by simp
  qed
qed

text \<open>
  C5. Every \<^verbatim>\<open>rasterize_simplified\<close> call of \<^verbatim>\<open>forward\<close> passes \<^verbatim>\<open>anti_aliased=False\<close>. The
  opacities of the \<^verbatim>\<open>rgb\<close> and \<^verbatim>\<open>inverse_depth\<close> calls are one and the same list \<open>op'\<close>, computed
  before any channel: the opacities of \<^verbatim>\<open>preprocess\<close> themselves when anti-aliasing is off,
  and their product with the compensation factor, taken once, when it is on; the
  \<^verbatim>\<open>hard_inverse_depth\<close> call gets \<open>op' + (1 - op')\<close>.
\<close>

theorem anti_aliasing_applied_once:
  assumes "forward ext self cam pc bg sm rts = Inr (out, calls)"
  defines "pr \<equiv> fst (preprocess ext self pc cam sm)"
  defines "op0 \<equiv> snd (preprocess ext self pc cam sm)"
  shows "\<exists>op'. compensate self op0 (comp pr) = Inr op' \<and>
           (\<not> anti_aliased self \<longrightarrow> op' = op0) \<and>
           (anti_aliased self \<and> length op0 = length (comp pr) \<longrightarrow> op' = map2 (*) op0 (comp pr)) \<and>
           (\<forall>args. Call_rasterize args \<in> set calls \<longrightarrow>
              \<not> rasterize_anti_aliased args \<and>
              (opacities args = op' \<or>
               args = hard_inverse_depth_args pr cam op' \<and>
               opacities args = map (\<lambda>a. a + (1 - a)) op'))"
proof -
  have pp: "preprocess ext self pc cam sm = (pr, op0)"
    by (simp add: pr_def op0_def)
  obtain op' rgb_call where c: "compensate self op0 (comp pr) = Inr op'"
    and rgb: "rgb_call = None \<or> (\<exists>rgbs. rgb_call = Some (rgb_args pr cam rgbs bg op'))"
    and calls: "calls = Call_project #
        (case rgb_call of None \<Rightarrow> []
         | Some a \<Rightarrow> [Call_spherical_harmonics, Call_model, Call_rasterize a]) @
        (if ''inverse_depth'' \<in> set (requested rts)
         then [Call_rasterize (inverse_depth_args pr cam op')] else []) @
        (if ''hard_inverse_depth'' \<in> set (requested rts)
         then [Call_rasterize (hard_inverse_depth_args pr cam op')] else [])"
    using forward_returns [OF assms(1) pp] by (metis (no_types, lifting))
  have "\<not> rasterize_anti_aliased args \<and>
        (opacities args = op' \<or>
         args = hard_inverse_depth_args pr cam op' \<and> opacities args = map (\<lambda>a. a + (1 - a)) op')"
    if "Call_rasterize args \<in> set calls" for args
  proof -
    have "(\<exists>rgbs. args = rgb_args pr cam rgbs bg op') \<or> args = inverse_depth_args pr cam op' \<or>
          args = hard_inverse_depth_args pr cam op'"
      using that rgb unfolding calls by (auto split: if_splits)
    then show ?thesis
      by (auto simp: rgb_args_def inverse_depth_args_def hard_inverse_depth_args_def)
  qed
  then show ?thesis
    using c compensate_Inr [OF c] by blast
qed

text \<open>
  In the example scene anti-aliasing is on: the opacities \<open>[1/2, 1/4]\<close> and the compensation
  \<open>[1/2, 1]\<close> give \<open>[1/4, 1/4]\<close> in the rgb and inverse-depth calls.
\<close>

theorem anti_aliasing_applied_once_witness:
  "forward example_externals example_module example_camera example_pc [0, 0, 0] 1
     (Some [''rgb'', ''inverse_depth''])
     = Inr (\<lparr> render = Some (rgb_args example_projection example_camera
                               [[1, 0, 7 / 10], [0, 0, 0]] [0, 0, 0] [1 / 4, 1 / 4]),
              inverse_depth = Some (inverse_depth_args example_projection example_camera
                                      [1 / 4, 1 / 4]),
              hard_inverse_depth = None,
              viewspace_points = [[0, 0], [1, 1]], viewspace_points_grad_scale = [[2, 1]],
              visibility_filter = [True, False], out_radii = [3, 0] \<rparr>,
            [Call_project, Call_spherical_harmonics, Call_model,
             Call_rasterize (rgb_args example_projection example_camera
                               [[1, 0, 7 / 10], [0, 0, 0]] [0, 0, 0] [1 / 4, 1 / 4]),
             Call_rasterize (inverse_depth_args example_projection example_camera
                               [1 / 4, 1 / 4])]) \<and>
   \<not> rasterize_anti_aliased (inverse_depth_args example_projection example_camera [1 / 4, 1 / 4])"
proof -
  let ?a = "rgb_args example_projection example_camera [[1, 0, 7 / 10], [0, 0, 0]] [0, 0, 0]
              [1 / 4, 1 / 4]"
  let ?b = "inverse_depth_args example_projection example_camera [1 / 4, 1 / 4]"
  let ?out = "\<lparr> render = Some ?a, inverse_depth = Some ?b, hard_inverse_depth = None,
              viewspace_points = [[0, 0], [1, 1]], viewspace_points_grad_scale = [[2, 1]],
              visibility_filter = [True, False], out_radii = [3, 0] \<rparr>"
  let ?calls = "[Call_project, Call_spherical_harmonics, Call_model, Call_rasterize ?a,
                 Call_rasterize ?b]"
  have h: "forward example_externals example_module example_camera example_pc [0, 0, 0] 1
             (Some [''rgb'', ''inverse_depth'']) = Inr (?out, ?calls)"
    by (simp add: example_forward requested_def)
  have "\<not> rasterize_anti_aliased ?b"
    using anti_aliasing_applied_once [OF h] by (elim exE conjE allE [of _ ?b]) simp
  with h show ?thesis by (rule conjI)
qed

subsection \<open>The depth channels\<close>

text \<open>
  C6. In the \<^verbatim>\<open>hard_inverse_depth\<close> channel the opacities passed to the rasterization are
  \<open>opacities + (1 - opacities)\<close>, which is \<open>1\<close> for every point. The call is the
  \<^verbatim>\<open>inverse_depth\<close> call with all opacities replaced by \<open>1\<close>: same projection, camera,
  background, flag, and the same colours \<open>1 / (max(depth, 0) + 1e-8)\<close>. So the image is the
  one the rasterizer gives for the inverse-depth arguments with opacities forced to \<open>1\<close>.
\<close>

theorem hard_inverse_depth_opacity_one:
  assumes "forward ext self cam pc bg sm rts = Inr (out, calls)"
    and "''hard_inverse_depth'' \<in> set (requested rts)"
  defines "pr \<equiv> fst (preprocess ext self pc cam sm)"
  defines "op0 \<equiv> snd (preprocess ext self pc cam sm)"
  shows "\<exists>op' hard.
           compensate self op0 (comp pr) = Inr op' \<and>
           Call_rasterize hard \<in> set calls \<and>
           hard_inverse_depth out = Some (rasterize_simplified ext hard) \<and>
           opacities hard = map (\<lambda>a. a + (1 - a)) op' \<and>
           (\<forall>x \<in> set (opacities hard). x = 1) \<and>
           length (opacities hard) = length op' \<and>
           hard = (inverse_depth_args pr cam op') \<lparr> opacities := replicate (length op') 1 \<rparr> \<and>
           colors hard = colors (inverse_depth_args pr cam op') \<and>
           colors hard = map (\<lambda>d. [1 / (max d 0 + 1 / 10 ^ 8)]) (depths pr) \<and>
           (''inverse_depth'' \<in> set (requested rts) \<longrightarrow>
              inverse_depth out = Some (rasterize_simplified ext (inverse_depth_args pr cam op')))"
proof -
  have pp: "preprocess ext self pc cam sm = (pr, op0)"
    by (simp add: pr_def op0_def)
  obtain op' where c: "compensate self op0 (comp pr) = Inr op'"
    and h: "hard_inverse_depth out = Some (rasterize_simplified ext (hard_inverse_depth_args pr cam op'))"
    and i: "''inverse_depth'' \<in> set (requested rts) \<longrightarrow>
              inverse_depth out = Some (rasterize_simplified ext (inverse_depth_args pr cam op'))"
    and calls: "Call_rasterize (hard_inverse_depth_args pr cam op') \<in> set calls"
    using forward_returns [OF assms(1) pp] assms(2) by auto
  let ?h = "hard_inverse_depth_args pr cam op'"
  have 1: "opacities ?h = map (\<lambda>a. a + (1 - a)) op'"
    by (simp add: hard_inverse_depth_args_def)
  have 2: "\<forall>x \<in> set (opacities ?h). x = 1" "length (opacities ?h) = length op'"
    by (simp_all add: hard_inverse_depth_args_def)
  have 3: "?h = (inverse_depth_args pr cam op') \<lparr> opacities := replicate (length op') 1 \<rparr>"
    by (simp add: hard_inverse_depth_args_def inverse_depth_args_def map_replicate_const)
  have 4: "colors ?h = colors (inverse_depth_args pr cam op')"
    "colors ?h = map (\<lambda>d. [1 / (max d 0 + 1 / 10 ^ 8)]) (depths pr)"
    by (simp_all add: hard_inverse_depth_args_def inverse_depth_args_def inverse_depth_colors_def)
  show ?thesis
    using c calls h 1 2 3 4 i by blast
qed

text \<open>The example scene, with opacities \<open>[1/4, 1/4]\<close> after compensation: both become \<open>1\<close>.\<close>

theorem hard_inverse_depth_opacity_one_witness:
  "forward example_externals example_module example_camera example_pc [0, 0, 0] 1
     (Some [''hard_inverse_depth''])
     = Inr (\<lparr> render = None, inverse_depth = None,
              hard_inverse_depth = Some (hard_inverse_depth_args example_projection example_camera
                                           [1 / 4, 1 / 4]),
              viewspace_points = [[0, 0], [1, 1]], viewspace_points_grad_scale = [[2, 1]],
              visibility_filter = [True, False], out_radii = [3, 0] \<rparr>,
            [Call_project,
             Call_rasterize (hard_inverse_depth_args example_projection example_camera
                               [1 / 4, 1 / 4])]) \<and>
   ''hard_inverse_depth'' \<in> set (requested (Some [''hard_inverse_depth''])) \<and>
   opacities (hard_inverse_depth_args example_projection example_camera [1 / 4, 1 / 4]) ! 0 = 1 \<and>
   opacities (hard_inverse_depth_args example_projection example_camera [1 / 4, 1 / 4]) ! 1 = 1"
proof -
  let ?h = "hard_inverse_depth_args example_projection example_camera [1 / 4, 1 / 4]"
  let ?out = "\<lparr> render = None, inverse_depth = None, hard_inverse_depth = Some ?h,
              viewspace_points = [[0, 0], [1, 1]], viewspace_points_grad_scale = [[2, 1]],
              visibility_filter = [True, False], out_radii = [3, 0] \<rparr>"
  let ?calls = "[Call_project, Call_rasterize ?h]"
  have h1: "forward example_externals example_module example_camera example_pc [0, 0, 0] 1
             (Some [''hard_inverse_depth'']) = Inr (?out, ?calls)"
    by (simp add: example_forward requested_def)
  have h2: "''hard_inverse_depth'' \<in> set (requested (Some [''hard_inverse_depth'']))"
    by (simp add: requested_def)
  from hard_inverse_depth_opacity_one [OF h1 h2]
  obtain hard where mem: "Call_rasterize hard \<in> set ?calls"
    and one: "\<forall>x \<in> set (opacities hard). x = 1"
    by (elim exE conjE)
  from mem have "hard = ?h" by simp
  with one have a: "\<forall>x \<in> set (opacities ?h). x = 1" by simp
  have "length (opacities ?h) = 2" by (simp add: hard_inverse_depth_args_def)
  then have "opacities ?h ! 0 \<in> set (opacities ?h)" "opacities ?h ! 1 \<in> set (opacities ?h)"
    by simp_all
  with a have "opacities ?h ! 0 = 1" "opacities ?h ! 1 = 1" by blast+
  with h1 h2 show ?thesis by (intro conjI)
qed

subsection \<open>Setup and checkpoints\<close>

lemma fold_max_id:
  "fold (\<lambda>i max_input_id. if fst i > max_input_id then fst i else max_input_id) vals (a :: int)
     = Max (insert a (set (map fst vals)))"
proof -
  have "fold (\<lambda>i max_input_id. if fst i > max_input_id then fst i else max_input_id) vals a
          = fold max (map fst vals) a"
    by (induction vals arbitrary: a) (simp_all add: max_def)
  also have "\<dots> = Max (set (a # map fst vals))"
    by (simp only: Max.set_eq_fold)
  finally show ?thesis by simp
qed

lemma Model_succeeds:
  assumes "0 \<le> n_appearances cfg"
    and "\<forall>s \<in> set (skip_layers cfg). 0 \<le> s \<and> s < int (n_layers cfg)"
  shows "\<exists>m. Model ini cfg = Inr m \<and> config m = cfg \<and>
           int (length (embedding m)) = n_appearances cfg"
proof -
  have "\<not> (\<exists>s \<in> set (skip_layers cfg). s < 0 \<or> int (n_layers cfg) \<le> s)"
    using assms(2) by auto
  then obtain m where m: "Model ini cfg = Inr m"
    using assms(1) by (simp add: Model_def Let_def get_network_with_skip_layers_def)
  show ?thesis
    using m Model_Inr(1,3) [OF m] assms(1) by simp
qed

lemma setup_model_succeeds:
  assumes "0 \<le> n_appearances (model_config self)"
    and "\<forall>s \<in> set (skip_layers (model_config self)).
           0 \<le> s \<and> s < int (n_layers (model_config self))"
  shows "\<exists>self' m. setup_model ini self = Inr self' \<and>
           self' = self \<lparr> model := Some m, renderer := Some GSPlatRenderer \<rparr> \<and>
           config m = model_config self \<and>
           int (length (embedding m)) = n_appearances (model_config self)"
proof -
  obtain m where m: "Model ini (model_config self) = Inr m" "config m = model_config self"
    "int (length (embedding m)) = n_appearances (model_config self)"
    using Model_succeeds [OF assms] by blast
  have "setup_model ini self = Inr (self \<lparr> model := Some m, renderer := Some GSPlatRenderer \<rparr>)"
    using m(1) by (simp add: setup_model_def)
  then show ?thesis using m(2,3) by blast
qed

text \<open>
  C7. Let \<^verbatim>\<open>setup\<close> run with a lightning module while \<^verbatim>\<open>n_appearances \<le> 0\<close> (and with
  skip-layer indices the network accepts). Then it returns; \<^verbatim>\<open>n_appearances\<close> has become
  \<open>n\<close>, one more than the largest of \<open>0\<close> and the observed appearance ids, hence at least
  \<open>1\<close> also without any group, and \<open>max(ids) + 1\<close> when there are ids (appearance ids are
  not negative); nothing else of the configuration has changed; the embedding table of
  the model it built has \<open>n\<close> rows; and any later \<^verbatim>\<open>setup\<close>, whatever the lightning module
  then shows, leaves the configuration as it is and builds a table of \<open>n\<close> rows again.
\<close>

theorem setup_infers_n_appearances:
  fixes self :: renderer_module and lm :: lightning_module
  assumes "n_appearances (model_config self) \<le> 0"
    and "\<forall>s \<in> set (skip_layers (model_config self)).
           0 \<le> s \<and> s < int (n_layers (model_config self))"
  defines "ids \<equiv> (case appearance_group_ids lm of None \<Rightarrow> []
                   | Some groups \<Rightarrow> map (\<lambda>g. fst (snd g)) groups)"
  defines "n \<equiv> Max (insert 0 (set ids)) + 1"
  shows "\<exists>self' m.
           renderer_setup ini self stage (Some lm) = Inr self' \<and>
           model_config self' = (model_config self) \<lparr> n_appearances := n \<rparr> \<and>
           1 \<le> n \<and>
           (ids \<noteq> [] \<and> (\<forall>i \<in> set ids. 0 \<le> i) \<longrightarrow> n = Max (set ids) + 1) \<and>
           model self' = Some m \<and> int (length (embedding m)) = n \<and>
           (\<forall>ini' stage' lm'. \<exists>self'' m''.
              renderer_setup ini' self' stage' (Some lm') = Inr self'' \<and>
              model_config self'' = model_config self' \<and>
              model self'' = Some m'' \<and> int (length (embedding m'')) = n)"
proof -
  let ?cfg = "(model_config self) \<lparr> n_appearances := n \<rparr>"
  let ?self1 = "self \<lparr> model_config := ?cfg \<rparr>"
  have n1: "1 \<le> n"
  proof -
    have "0 \<le> Max (insert 0 (set ids))" by (rule Max_ge) simp_all
    then show ?thesis by (simp add: n_def)
  qed
  have nmax: "n = Max (set ids) + 1" if "ids \<noteq> []" "\<forall>i \<in> set ids. 0 \<le> i"
  proof -
    have "hd ids \<in> set ids" using that(1) by simp
    then have "0 \<le> hd ids" "hd ids \<le> Max (set ids)" using that(2) by simp_all
    then have "0 \<le> Max (set ids)" by linarith
    then have "Max (insert 0 (set ids)) = Max (set ids)"
      using that(1) by (simp add: max_def)
    then show ?thesis by (simp add: n_def)
  qed
  have inferred: "(case appearance_group_ids lm of None \<Rightarrow> 0
          | Some groups \<Rightarrow>
              fold (\<lambda>i max_input_id. if fst i > max_input_id then fst i else max_input_id)
                (map snd groups) 0) + 1 = n"
    by (cases "appearance_group_ids lm") (simp_all add: n_def ids_def fold_max_id comp_def)
  have first: "renderer_setup ini self stage (Some lm) = setup_model ini ?self1"
    using assms(1) inferred by (simp add: renderer_setup_def Let_def)
  have ok1: "0 \<le> n_appearances (model_config ?self1)"
    "\<forall>s \<in> set (skip_layers (model_config ?self1)). 0 \<le> s \<and> s < int (n_layers (model_config ?self1))"
    using n1 assms(2) by simp_all
  obtain self' m where s1: "setup_model ini ?self1 = Inr self'"
    and self': "self' = ?self1 \<lparr> model := Some m, renderer := Some GSPlatRenderer \<rparr>"
    and m: "int (length (embedding m)) = n"
    using setup_model_succeeds [OF ok1, of ini] by auto
  have cfg': "model_config self' = ?cfg" by (simp add: self')
  have later: "\<exists>self'' m''. renderer_setup ini' self' stage' (Some lm') = Inr self'' \<and>
      model_config self'' = model_config self' \<and>
      model self'' = Some m'' \<and> int (length (embedding m'')) = n" for ini' stage' lm'
  proof -
    have pos: "\<not> n_appearances (model_config self') \<le> 0" using n1 by (simp add: cfg')
    have again: "renderer_setup ini' self' stage' (Some lm') = setup_model ini' self'"
      using pos by (simp add: renderer_setup_def Let_def)
    have ok2: "0 \<le> n_appearances (model_config self')"
      "\<forall>s \<in> set (skip_layers (model_config self')). 0 \<le> s \<and> s < int (n_layers (model_config self'))"
      using n1 assms(2) by (simp_all add: cfg')
    obtain self'' m'' where "setup_model ini' self' = Inr self''"
      and "self'' = self' \<lparr> model := Some m'', renderer := Some GSPlatRenderer \<rparr>"
      and "int (length (embedding m'')) = n_appearances (model_config self')"
      using setup_model_succeeds [OF ok2, of ini'] by auto
    then show ?thesis using again by (simp add: cfg')
  qed
  have "model self' = Some m" by (simp add: self')
  then show ?thesis
    using first s1 cfg' n1 nmax m later by auto
qed

text \<open>The fresh example module and the ids \<open>0\<close>, \<open>2\<close>, \<open>1\<close>: three appearances.\<close>

theorem setup_infers_n_appearances_witness:
  "n_appearances (model_config example_fresh_module) \<le> 0 \<and>
   skip_layers (model_config example_fresh_module) = [] \<and>
   (\<exists>self' m.
      renderer_setup example_initializers example_fresh_module ''fit''
        (Some example_lightning_module) = Inr self' \<and>
      n_appearances (model_config self') = 3 \<and>
      model self' = Some m \<and> int (length (embedding m)) = 3)"
proof -
  have h1: "n_appearances (model_config example_fresh_module) \<le> 0"
    by (simp add: example_fresh_module_def)
  have sk: "skip_layers (model_config example_fresh_module) = []"
    by (simp add: example_fresh_module_def example_model_config_def ModelConfig_def)
  have h2: "\<forall>s \<in> set (skip_layers (model_config example_fresh_module)).
      0 \<le> s \<and> s < int (n_layers (model_config example_fresh_module))"
    by (simp add: sk)
  have n: "Max (insert 0 (set (case appearance_group_ids example_lightning_module of
                                 None \<Rightarrow> []
                               | Some groups \<Rightarrow> map (\<lambda>g. fst (snd g)) groups))) + 1 = (3 :: int)"
    by (simp add: example_lightning_module_def)
  from setup_infers_n_appearances [OF h1 h2, where lm = example_lightning_module
      and ini = example_initializers and stage = "''fit''"]
  obtain self' m where
    1: "renderer_setup example_initializers example_fresh_module ''fit''
          (Some example_lightning_module) = Inr self'"
    and 2: "model_config self' = (model_config example_fresh_module) \<lparr> n_appearances := 3 \<rparr>"
    and 3: "model self' = Some m" and 4: "int (length (embedding m)) = 3"
    unfolding n by (elim exE conjE)
  have "n_appearances (model_config self') = 3" by (simp add: 2)
  then have "\<exists>self' m.
      renderer_setup example_initializers example_fresh_module ''fit''
        (Some example_lightning_module) = Inr self' \<and>
      n_appearances (model_config self') = 3 \<and>
      model self' = Some m \<and> int (length (embedding m)) = 3"
    using 1 3 4 by blast
  then show ?thesis by (rule conjI [OF h1 conjI [OF sk]])
qed

text \<open>
  The framework's \<^verbatim>\<open>load_state_dict\<close> copies the persisted values into the parameters the
  module has; it raises when a shape differs and never resizes a parameter. C8 uses this
  much of it: on success the number of rows of the embedding table is unchanged.

  C8. When the state dictionary has the entry \<^verbatim>\<open>model.embedding.weight\<close> (and the skip-layer
  indices are ones the network accepts), \<^verbatim>\<open>load_state_dict\<close> is the framework's load applied
  to the module in which \<^verbatim>\<open>n_appearances\<close> has been overwritten with the number of rows of
  that entry, whatever it was before, and the model rebuilt from this configuration, so
  that its embedding table has as many rows as the persisted one. Hence, when loading
  returns, the table of the loaded module has as many rows as the persisted one.
\<close>

theorem load_state_dict_resizes:
  fixes super_load_state_dict :: "'k framework_load"
  assumes "sd ''model.embedding.weight'' = Some weight"
    and "\<forall>s \<in> set (skip_layers (model_config self)).
           0 \<le> s \<and> s < int (n_layers (model_config self))"
    and "\<forall>s s' keys. super_load_state_dict s sd strict = Inr (s', keys) \<longrightarrow>
           embedding_rows s' = embedding_rows s"
  shows "\<exists>self' m.
           setup_model ini (self \<lparr> model_config :=
               (model_config self) \<lparr> n_appearances := int (length weight) \<rparr> \<rparr>) = Inr self' \<and>
           load_state_dict super_load_state_dict ini self sd strict
             = super_load_state_dict self' sd strict \<and>
           model_config self' = (model_config self) \<lparr> n_appearances := int (length weight) \<rparr> \<and>
           model self' = Some m \<and> config m = model_config self' \<and>
           length (embedding m) = length weight \<and>
           (\<forall>loaded keys.
              load_state_dict super_load_state_dict ini self sd strict = Inr (loaded, keys) \<longrightarrow>
              embedding_rows loaded = Some (length weight))"
proof -
  let ?self1 = "self \<lparr> model_config :=
                  (model_config self) \<lparr> n_appearances := int (length weight) \<rparr> \<rparr>"
  have ok: "0 \<le> n_appearances (model_config ?self1)"
    "\<forall>s \<in> set (skip_layers (model_config ?self1)). 0 \<le> s \<and> s < int (n_layers (model_config ?self1))"
    using assms(2) by simp_all
  obtain self' m where s: "setup_model ini ?self1 = Inr self'"
    and self': "self' = ?self1 \<lparr> model := Some m, renderer := Some GSPlatRenderer \<rparr>"
    and c: "config m = model_config ?self1"
    and m: "int (length (embedding m)) = n_appearances (model_config ?self1)"
    using setup_model_succeeds [OF ok, of ini] by auto
  have l: "load_state_dict super_load_state_dict ini self sd strict
             = super_load_state_dict self' sd strict"
    by (simp add: load_state_dict_def assms(1) Let_def s)
  have rows: "embedding_rows self' = Some (length weight)"
    using m by (simp add: embedding_rows_def self')
  have after: "embedding_rows loaded = Some (length weight)"
    if "load_state_dict super_load_state_dict ini self sd strict = Inr (loaded, keys)"
    for loaded keys
    using that assms(3) rows unfolding l by metis
  have "model_config self' = (model_config self) \<lparr> n_appearances := int (length weight) \<rparr>"
    "model self' = Some m" "config m = model_config self'" "length (embedding m) = length weight"
    using c m by (simp_all add: self')
  then show ?thesis using s l after by blast
qed

text \<open>
  The example module is configured for two appearances; loading the checkpoint of three
  rows, with a framework load that keeps the shapes of the parameters, leaves it with a
  table of three rows.
\<close>

theorem load_state_dict_resizes_witness:
  "example_state_dict ''model.embedding.weight'' = Some [[1], [2], [3]] \<and>
   skip_layers (model_config example_module) = [] \<and>
   n_appearances (model_config example_module) = 2 \<and>
   (\<exists>loaded. load_state_dict example_framework_load example_initializers example_module
                example_state_dict True = Inr (loaded, ()) \<and>
      embedding_rows loaded = Some 3)"
proof -
  have h1: "example_state_dict ''model.embedding.weight'' = Some [[1], [2], [3]]"
    by (simp add: example_state_dict_def)
  have sk: "skip_layers (model_config example_module) = []"
    by (simp add: example_module_def example_model_config_def ModelConfig_def)
  have h2: "\<forall>s \<in> set (skip_layers (model_config example_module)).
      0 \<le> s \<and> s < int (n_layers (model_config example_module))"
    by (simp add: sk)
  have h3: "\<forall>s s' keys. example_framework_load s example_state_dict True = Inr (s', keys) \<longrightarrow>
      embedding_rows s' = embedding_rows s"
    by (auto simp: example_framework_load_def embedding_rows_def h1
        split: option.splits if_splits dest: map_eq_imp_length_eq)
  have two: "n_appearances (model_config example_module) = 2"
    by (simp add: example_module_def example_model_config_def)
  obtain loaded where l: "load_state_dict example_framework_load example_initializers
      example_module example_state_dict True = Inr (loaded, ())"
    by (simp add: load_state_dict_def h1 setup_model_def Model_def Let_def
        get_network_with_skip_layers_def example_framework_load_def example_module_def
        example_model_config_def ModelConfig_def example_initializers_def upt_rec numeral_nat)
  have "embedding_rows loaded = Some (length [[1], [2], [3 :: real]])"
    using load_state_dict_resizes [where sd = example_state_dict and weight = "[[1], [2], [3]]"
        and self = example_module and super_load_state_dict = example_framework_load
        and strict = True and ini = example_initializers, OF h1 h2 h3] l
    by (elim exE conjE allE [of _ loaded] allE [of _ "()"] impE) assumption
  then have "\<exists>loaded. load_state_dict example_framework_load example_initializers example_module
                example_state_dict True = Inr (loaded, ()) \<and>
      embedding_rows loaded = Some 3"
    using l by simp
  then show ?thesis by (rule conjI [OF h1 conjI [OF sk conjI [OF two]]])
qed

subsection \<open>The requested channels\<close>

text \<open>
  C9. Entries of \<^verbatim>\<open>render_types\<close> other than \<^verbatim>\<open>"rgb"\<close>, \<^verbatim>\<open>"inverse_depth"\<close> and
  \<^verbatim>\<open>"hard_inverse_depth"\<close> are ignored: \<^verbatim>\<open>forward\<close> does with the list exactly what it does with
  the list without them (the same result or the same exception, and the same calls), and
  in the dictionary it returns each of the three channel entries is an image if and only
  if its name is in the list, and \<^verbatim>\<open>None\<close> otherwise.
\<close>

theorem unrecognized_render_types_ignored:
  "forward ext self cam pc bg sm (Some rts)
     = forward ext self cam pc bg sm
         (Some (filter (\<lambda>t. t \<in> {''rgb'', ''inverse_depth'', ''hard_inverse_depth''}) rts)) \<and>
   (\<forall>out calls. forward ext self cam pc bg sm (Some rts) = Inr (out, calls) \<longrightarrow>
      (render out \<noteq> None) = (''rgb'' \<in> set rts) \<and>
      (inverse_depth out \<noteq> None) = (''inverse_depth'' \<in> set rts) \<and>
      (hard_inverse_depth out \<noteq> None) = (''hard_inverse_depth'' \<in> set rts))"
proof (intro conjI allI impI)
  show "forward ext self cam pc bg sm (Some rts)
     = forward ext self cam pc bg sm
         (Some (filter (\<lambda>t. t \<in> {''rgb'', ''inverse_depth'', ''hard_inverse_depth''}) rts))"
    by (rule forward_cong) (simp_all add: requested_def)
next
  fix out calls
  assume f: "forward ext self cam pc bg sm (Some rts) = Inr (out, calls)"
  show "(render out \<noteq> None) = (''rgb'' \<in> set rts)"
    using forward_channels(1) [OF f] by (simp add: requested_def)
  show "(inverse_depth out \<noteq> None) = (''inverse_depth'' \<in> set rts)"
    using forward_channels(2) [OF f] by (simp add: requested_def)
  show "(hard_inverse_depth out \<noteq> None) = (''hard_inverse_depth'' \<in> set rts)"
    using forward_channels(3) [OF f] by (simp add: requested_def)
qed

text \<open>
  The example scene with \<^verbatim>\<open>["normal", "inverse_depth", "depth"]\<close>: no exception, one
  rasterization, and only the inverse-depth entry is an image.
\<close>

theorem unrecognized_render_types_ignored_witness:
  "forward example_externals example_module example_camera example_pc [0, 0, 0] 1
     (Some [''normal'', ''inverse_depth'', ''depth''])
     = Inr (\<lparr> render = None,
              inverse_depth = Some (inverse_depth_args example_projection example_camera
                                      [1 / 4, 1 / 4]),
              hard_inverse_depth = None,
              viewspace_points = [[0, 0], [1, 1]], viewspace_points_grad_scale = [[2, 1]],
              visibility_filter = [True, False], out_radii = [3, 0] \<rparr>,
            [Call_project,
             Call_rasterize (inverse_depth_args example_projection example_camera
                               [1 / 4, 1 / 4])]) \<and>
   forward example_externals example_module example_camera example_pc [0, 0, 0] 1
     (Some [''normal'', ''inverse_depth'', ''depth''])
     = forward example_externals example_module example_camera example_pc [0, 0, 0] 1
         (Some [''inverse_depth'']) \<and>
   ''hard_inverse_depth'' \<notin> set [''normal'', ''inverse_depth'', ''depth'']"
proof -
  let ?rts = "[''normal'', ''inverse_depth'', ''depth'']"
  let ?out = "\<lparr> render = None,
              inverse_depth = Some (inverse_depth_args example_projection example_camera
                                      [1 / 4, 1 / 4]),
              hard_inverse_depth = None,
              viewspace_points = [[0, 0], [1, 1]], viewspace_points_grad_scale = [[2, 1]],
              visibility_filter = [True, False], out_radii = [3, 0] \<rparr>"
  let ?calls = "[Call_project,
             Call_rasterize (inverse_depth_args example_projection example_camera [1 / 4, 1 / 4])]"
  note t = unrecognized_render_types_ignored
      [of example_externals example_module example_camera example_pc "[0, 0, 0]" 1 ?rts]
  have h: "forward example_externals example_module example_camera example_pc [0, 0, 0] 1
             (Some ?rts) = Inr (?out, ?calls)"
    by (simp add: example_forward requested_def)
  have "forward example_externals example_module example_camera example_pc [0, 0, 0] 1 (Some ?rts)
     = forward example_externals example_module example_camera example_pc [0, 0, 0] 1
         (Some (filter (\<lambda>t. t \<in> {''rgb'', ''inverse_depth'', ''hard_inverse_depth''}) ?rts))"
    using t by (rule conjunct1)
  then have e: "forward example_externals example_module example_camera example_pc [0, 0, 0] 1
       (Some ?rts)
     = forward example_externals example_module example_camera example_pc [0, 0, 0] 1
         (Some [''inverse_depth''])"
    by simp
  have "(hard_inverse_depth ?out \<noteq> None) = (''hard_inverse_depth'' \<in> set ?rts)"
    using t [THEN conjunct2, rule_format, OF h] by (elim conjE)
  then have n: "''hard_inverse_depth'' \<notin> set ?rts" by simp
  from h e n show ?thesis by (intro conjI)
qed

text \<open>
  C10. \<^verbatim>\<open>forward\<close> with \<^verbatim>\<open>render_types=None\<close> is \<^verbatim>\<open>forward\<close> with \<^verbatim>\<open>render_types=["rgb"]\<close>: the
  same result or exception and the same calls; when it returns, the rgb image is there
  and the two depth entries are \<^verbatim>\<open>None\<close>.
\<close>

theorem default_render_types:
  "forward ext self cam pc bg sm None = forward ext self cam pc bg sm (Some [''rgb'']) \<and>
   (\<forall>out calls. forward ext self cam pc bg sm None = Inr (out, calls) \<longrightarrow>
      render out \<noteq> None \<and> inverse_depth out = None \<and> hard_inverse_depth out = None)"
proof (intro conjI allI impI)
  show "forward ext self cam pc bg sm None = forward ext self cam pc bg sm (Some [''rgb''])"
    by (rule forward_cong) (simp_all add: requested_def)
next
  fix out calls
  assume f: "forward ext self cam pc bg sm None = Inr (out, calls)"
  show "render out \<noteq> None"
    using forward_channels(1) [OF f] by (simp add: requested_def)
  show "inverse_depth out = None"
    using forward_channels(2) [OF f] by (simp add: requested_def)
  show "hard_inverse_depth out = None"
    using forward_channels(3) [OF f] by (simp add: requested_def)
qed

text \<open>The example scene rendered without \<^verbatim>\<open>render_types\<close>.\<close>

theorem default_render_types_witness:
  "forward example_externals example_module example_camera example_pc [0, 0, 0] 1 None
     = Inr (\<lparr> render = Some (rgb_args example_projection example_camera
                               [[1, 0, 7 / 10], [0, 0, 0]] [0, 0, 0] [1 / 4, 1 / 4]),
              inverse_depth = None, hard_inverse_depth = None,
              viewspace_points = [[0, 0], [1, 1]], viewspace_points_grad_scale = [[2, 1]],
              visibility_filter = [True, False], out_radii = [3, 0] \<rparr>,
            [Call_project, Call_spherical_harmonics, Call_model,
             Call_rasterize (rgb_args example_projection example_camera
                               [[1, 0, 7 / 10], [0, 0, 0]] [0, 0, 0] [1 / 4, 1 / 4])]) \<and>
   forward example_externals example_module example_camera example_pc [0, 0, 0] 1 None
     = forward example_externals example_module example_camera example_pc [0, 0, 0] 1
         (Some [''rgb'']) \<and>
   inverse_depth \<lparr> render = Some (rgb_args example_projection example_camera
                               [[1, 0, 7 / 10], [0, 0, 0]] [0, 0, 0] [1 / 4, 1 / 4]),
              inverse_depth = None, hard_inverse_depth = None,
              viewspace_points = [[0, 0], [1, 1]], viewspace_points_grad_scale = [[2, 1]],
              visibility_filter = [True, False], out_radii = [3, 0] \<rparr> = (None :: rasterize_args option)"
proof -
  let ?out = "\<lparr> render = Some (rgb_args example_projection example_camera
                               [[1, 0, 7 / 10], [0, 0, 0]] [0, 0, 0] [1 / 4, 1 / 4]),
              inverse_depth = None, hard_inverse_depth = None,
              viewspace_points = [[0, 0], [1, 1]], viewspace_points_grad_scale = [[2, 1]],
              visibility_filter = [True, False], out_radii = [3, 0] \<rparr>"
  let ?calls = "[Call_project, Call_spherical_harmonics, Call_model,
             Call_rasterize (rgb_args example_projection example_camera
                               [[1, 0, 7 / 10], [0, 0, 0]] [0, 0, 0] [1 / 4, 1 / 4])]"
  note t = default_render_types
      [of example_externals example_module example_camera example_pc "[0, 0, 0]" 1]
  have h: "forward example_externals example_module example_camera example_pc [0, 0, 0] 1 None
             = Inr (?out, ?calls)"
    by (simp add: example_forward requested_def)
  have e: "forward example_externals example_module example_camera example_pc [0, 0, 0] 1 None
     = forward example_externals example_module example_camera example_pc [0, 0, 0] 1
         (Some [''rgb''])"
    using t by (rule conjunct1)
  have n: "inverse_depth ?out = None"
    using t [THEN conjunct2, rule_format, OF h] by (elim conjE)
  from h e n show ?thesis by (intro conjI)
qed

end
